theory Spec2Isabelle
  imports Complex_Main
begin

section \<open>Data model\<close>

text \<open>
  The two front ends (\<^verbatim>\<open>src/editor.js\<close>, class \<^verbatim>\<open>SyncEditor\<close>, and
  \<^verbatim>\<open>src/sync-player.js\<close>, class \<^verbatim>\<open>SyncedPlayer\<close>) share the marker format
  \<^verbatim>\<open>{ bar: number, time: number }\<close>. JavaScript numbers are modelled by their
  mathematical values: a bar number is an \<^typ>\<open>int\<close>, a time in seconds a \<^typ>\<open>real\<close>.
  Rounding of IEEE doubles and the values NaN and Infinity are outside this model. Both
  position resolvers divide only under a test that the divisor is positive, and the model
  keeps these tests; the one other quotient, by the playback rate in \<^verbatim>\<open>play()\<close>, is
  meaningful for a non-zero rate only.
\<close>

record marker =
  bar :: int
  time :: real

text \<open>
  One entry of \<^verbatim>\<open>alphaTab.tickCache.masterBars\<close>, copied by \<^verbatim>\<open>buildBarTickMap\<close> as
  \<^verbatim>\<open>{ start, end }\<close> (\<^verbatim>\<open>end\<close> is reserved in Isabelle, hence the longer names).
\<close>

record barTicks =
  startTick :: int
  endTick :: int

text \<open>
  \<^verbatim>\<open>buildBarTickMap\<close> stores the entry of master bar \<^verbatim>\<open>i\<close> (counted from 0) under
  the key \<^verbatim>\<open>i + 1\<close>. The map is kept as the list of master bars; \<^verbatim>\<open>barTickMap[b]\<close>
  is \<^verbatim>\<open>undefined\<close> for every other key.
\<close>

definition tickLookup :: "barTicks list \<Rightarrow> int \<Rightarrow> barTicks option" where
  "tickLookup tm b = (if 1 \<le> b \<and> b \<le> int (length tm) then Some (tm ! nat (b - 1)) else None)"

section \<open>The editor: recording session\<close>

text \<open>
  The fields of \<^verbatim>\<open>SyncEditor\<close> that the recording session and the position resolver
  read or write. \<^verbatim>\<open>wavesurfer\<close>, \<^verbatim>\<open>score\<close> and \<^verbatim>\<open>alphaTab\<close> record whether the
  object is present (non-null); \<^verbatim>\<open>ed_tickPosition\<close> is \<^verbatim>\<open>alphaTab.tickPosition\<close>,
  the renderer's cursor; \<^verbatim>\<open>wavesurferRate\<close> is the rate last handed to
  \<^verbatim>\<open>wavesurfer.setPlaybackRate\<close>. The DOM (timeline, labels, buttons) is not
  modelled. Fields that \<^verbatim>\<open>SyncedPlayer\<close> has under the same name carry the prefix
  \<^verbatim>\<open>ed_\<close>.
\<close>

record SyncEditor =
  wavesurfer :: bool
  ed_score :: bool
  ed_alphaTab :: bool
  beatMarkers :: "marker list"
  currentBarToMark :: int
  ed_totalBars :: int
  ed_barTickMap :: "barTicks list"
  lastSyncedBar :: int
  lastTick :: int
  ed_tickPosition :: int
  playbackSpeed :: real
  wavesurferRate :: real

text \<open>
  \<^verbatim>\<open>scrollToBar(barNumber)\<close>: returns early without alphaTab or without an entry for
  the bar; otherwise moves the cursor to the start of the bar.
\<close>

definition scrollToBar :: "int \<Rightarrow> SyncEditor \<Rightarrow> SyncEditor" where
  "scrollToBar barNumber s =
     (if \<not> ed_alphaTab s then s
      else case tickLookup (ed_barTickMap s) barNumber of
             None \<Rightarrow> s
           | Some bt \<Rightarrow> s\<lparr>ed_tickPosition := startTick bt\<rparr>)"

text \<open>
  \<^verbatim>\<open>recordBeatMarker()\<close>, the tap. The argument \<^verbatim>\<open>currentTime\<close> is the value that
  \<^verbatim>\<open>this.wavesurfer.getCurrentTime()\<close> returns at the tap. The display updates, the
  button flash and the scheduled auto-save touch none of the fields above.
\<close>

definition recordBeatMarker :: "real \<Rightarrow> SyncEditor \<Rightarrow> SyncEditor" where
  "recordBeatMarker currentTime s =
     (if \<not> wavesurfer s \<or> \<not> ed_score s then s
      else if currentBarToMark s > ed_totalBars s then s
      else let s1 = s\<lparr>beatMarkers :=
                        beatMarkers s @ [\<lparr>bar = currentBarToMark s, time = currentTime\<rparr>]\<rparr>;
               s2 = s1\<lparr>currentBarToMark := currentBarToMark s1 + 1\<rparr>
           in scrollToBar (currentBarToMark s2) s2)"

text \<open>\<^verbatim>\<open>undoLastMarker()\<close>: nothing on an empty list, else \<^verbatim>\<open>pop()\<close> and decrement.\<close>

definition undoLastMarker :: "SyncEditor \<Rightarrow> SyncEditor" where
  "undoLastMarker s =
     (if length (beatMarkers s) = 0 then s
      else s\<lparr>beatMarkers := butlast (beatMarkers s),
             currentBarToMark := currentBarToMark s - 1\<rparr>)"

text \<open>
  \<^verbatim>\<open>clearAllMarkers()\<close>; \<^verbatim>\<open>confirmed\<close> is the answer of the \<^verbatim>\<open>confirm(...)\<close>
  dialog.
\<close>

definition clearAllMarkers :: "bool \<Rightarrow> SyncEditor \<Rightarrow> SyncEditor" where
  "clearAllMarkers confirmed s =
     (if length (beatMarkers s) = 0 then s
      else if \<not> confirmed then s
      else s\<lparr>beatMarkers := [], currentBarToMark := 1\<rparr>)"

text \<open>
  A session is a finite sequence of button presses: tap (with the audio time read at the
  tap), undo, clear (with the answer to the confirmation dialog).
\<close>

datatype sessionOp = Tap real | Undo | Clear bool

fun applyOp :: "SyncEditor \<Rightarrow> sessionOp \<Rightarrow> SyncEditor" where
  "applyOp s (Tap t) = recordBeatMarker t s"
| "applyOp s Undo = undoLastMarker s"
| "applyOp s (Clear c) = clearAllMarkers c s"

definition runSession :: "sessionOp list \<Rightarrow> SyncEditor \<Rightarrow> SyncEditor" where
  "runSession ops s = foldl applyOp s ops"

text \<open>The invariant of the recording session: bars 1, 2, ..., count in insertion order,
  and the next bar to mark is count + 1.\<close>

definition barsInOrder :: "SyncEditor \<Rightarrow> bool" where
  "barsInOrder s \<longleftrightarrow>
     map bar (beatMarkers s) = map int [1 ..< Suc (length (beatMarkers s))] \<and>
     currentBarToMark s = int (length (beatMarkers s)) + 1"

text \<open>
  The state the constructor leaves behind (\<^verbatim>\<open>beatMarkers = []\<close>,
  \<^verbatim>\<open>currentBarToMark = 1\<close>), with a score of \<^verbatim>\<open>n\<close> bars and the audio loaded and
  the tick map \<^verbatim>\<open>tm\<close> built.
\<close>

definition loadedEditor :: "int \<Rightarrow> barTicks list \<Rightarrow> SyncEditor" where
  "loadedEditor n tm =
     \<lparr>wavesurfer = True, ed_score = True, ed_alphaTab = True, beatMarkers = [],
      currentBarToMark = 1, ed_totalBars = n, ed_barTickMap = tm,
      lastSyncedBar = 0, lastTick = 0, ed_tickPosition = 0,
      playbackSpeed = 1, wavesurferRate = 1\<rparr>"

definition exampleTicks :: "barTicks list" where
  "exampleTicks =
     [\<lparr>startTick = 0, endTick = 3840\<rparr>, \<lparr>startTick = 3840, endTick = 7680\<rparr>,
      \<lparr>startTick = 7680, endTick = 11520\<rparr>, \<lparr>startTick = 11520, endTick = 15360\<rparr>]"


section \<open>The editor: position resolver\<close>

text \<open>
  \<^verbatim>\<open>this.beatMarkers[j]?.time || null\<close>: \<^verbatim>\<open>null\<close> when there is no marker at index
  \<^verbatim>\<open>j\<close>, and also when its time is the falsy number 0.
\<close>

definition timeOrNull :: "marker list \<Rightarrow> nat \<Rightarrow> real option" where
  "timeOrNull ms j = (if j < length ms \<and> time (ms ! j) \<noteq> 0 then Some (time (ms ! j)) else None)"

text \<open>
  The loop of \<^verbatim>\<open>highlightCurrentBar\<close> from index \<^verbatim>\<open>i\<close> on, over the loop variables
  \<^verbatim>\<open>(currentBar, currentBarTime, nextBarTime)\<close>; the \<^verbatim>\<open>else\<close> branch is the
  \<^verbatim>\<open>break\<close>.
\<close>

function editorScan ::
  "marker list \<Rightarrow> real \<Rightarrow> nat \<Rightarrow> int \<times> real \<times> real option \<Rightarrow> int \<times> real \<times> real option" where
  "editorScan ms currentTime i vars =
     (if i < length ms then
        (if currentTime \<ge> time (ms ! i)
         then editorScan ms currentTime (i + 1)
                (bar (ms ! i), time (ms ! i), timeOrNull ms (i + 1))
         else vars)
      else vars)"
  by pat_completeness auto
termination
  by (relation "measure (\<lambda>(ms, t, i, vars). length ms - i)") auto

declare editorScan.simps [simp del]

text \<open>The loop with its initial values \<^verbatim>\<open>currentBar = 0\<close>, \<^verbatim>\<open>currentBarTime = 0\<close>,
  \<^verbatim>\<open>nextBarTime = null\<close>.\<close>

definition editorResolve :: "marker list \<Rightarrow> real \<Rightarrow> int \<times> real \<times> real option" where
  "editorResolve ms currentTime = editorScan ms currentTime 0 (0, 0, None)"

text \<open>
  \<^verbatim>\<open>progress\<close> in \<^verbatim>\<open>highlightCurrentBar\<close>: 0 unless \<^verbatim>\<open>nextBarTime\<close> is truthy and
  greater than \<^verbatim>\<open>currentBarTime\<close>.
\<close>

definition editorProgress :: "real \<Rightarrow> real \<Rightarrow> real option \<Rightarrow> real" where
  "editorProgress currentTime currentBarTime nextBarTime =
     (case nextBarTime of
        None \<Rightarrow> 0
      | Some n \<Rightarrow>
          if n \<noteq> 0 \<and> n > currentBarTime
          then (let barDuration = n - currentBarTime;
                    timeInBar = currentTime - currentBarTime
                in min 1 (max 0 (timeInBar / barDuration)))
          else 0)"

text \<open>
  The value of \<^verbatim>\<open>progress\<close> that \<^verbatim>\<open>highlightCurrentBar(currentTime)\<close> computes from
  the variables the loop leaves behind.
\<close>

definition editorProgressAt :: "marker list \<Rightarrow> real \<Rightarrow> real" where
  "editorProgressAt ms currentTime =
     (case editorResolve ms currentTime of
        (currentBar, currentBarTime, nextBarTime) \<Rightarrow>
          editorProgress currentTime currentBarTime nextBarTime)"

text \<open>\<^verbatim>\<open>Math.floor(barTicks.start + (barTicks.end - barTicks.start) * progress)\<close>.\<close>

definition interpolateTick :: "barTicks \<Rightarrow> real \<Rightarrow> int" where
  "interpolateTick bt progress =
     \<lfloor>real_of_int (startTick bt) + real_of_int (endTick bt - startTick bt) * progress\<rfloor>"

text \<open>
  \<^verbatim>\<open>highlightCurrentBar(currentTime)\<close>. The cursor is written inside
  \<^verbatim>\<open>try { ... } catch (e) {}\<close>, after \<^verbatim>\<open>lastTick\<close>; without alphaTab the write
  throws and is swallowed.
\<close>

definition highlightCurrentBar :: "real \<Rightarrow> SyncEditor \<Rightarrow> SyncEditor" where
  "highlightCurrentBar currentTime s =
     (case editorResolve (beatMarkers s) currentTime of
        (currentBar, currentBarTime, nextBarTime) \<Rightarrow>
          let s1 = (if currentBar > 0 \<and> currentBar \<noteq> lastSyncedBar s
                    then scrollToBar currentBar (s\<lparr>lastSyncedBar := currentBar\<rparr>)
                    else s)
          in if currentBar > 0 then
               (case tickLookup (ed_barTickMap s1) currentBar of
                  None \<Rightarrow> s1
                | Some bt \<Rightarrow>
                    let progress = editorProgress currentTime currentBarTime nextBarTime;
                        tick = interpolateTick bt progress
                    in if lastTick s1 = 0 \<or> \<bar>tick - lastTick s1\<bar> > 100
                       then (if ed_alphaTab s1
                             then s1\<lparr>lastTick := tick, ed_tickPosition := tick\<rparr>
                             else s1\<lparr>lastTick := tick\<rparr>)
                       else s1)
             else s1)"

text \<open>The speed slider's \<^verbatim>\<open>input\<close> handler; \<^verbatim>\<open>v\<close> is \<^verbatim>\<open>parseInt(e.target.value)\<close>.\<close>

definition speedInput :: "int \<Rightarrow> SyncEditor \<Rightarrow> SyncEditor" where
  "speedInput v s =
     (let s1 = s\<lparr>playbackSpeed := real_of_int v / 100\<rparr>
      in if wavesurfer s1 then s1\<lparr>wavesurferRate := playbackSpeed s1\<rparr> else s1)"

section \<open>The player\<close>

text \<open>
  An \<^verbatim>\<open>AudioBufferSourceNode\<close> as \<^verbatim>\<open>play()\<close> creates it: its
  \<^verbatim>\<open>playbackRate.value\<close> and the buffer offset given to \<^verbatim>\<open>start(0, offset)\<close>, the
  position from which it sounds. \<^verbatim>\<open>play()\<close> attaches the \<^verbatim>\<open>onended\<close> handler to every
  node it creates and starts it at once.
\<close>

record bufferSource =
  rate :: real
  offset :: real

text \<open>
  The fields of \<^verbatim>\<open>SyncedPlayer\<close>. \<^verbatim>\<open>markers\<close> is \<^verbatim>\<open>None\<close> when
  \<^verbatim>\<open>this.syncData\<close> or \<^verbatim>\<open>this.syncData.markers\<close> is missing; \<^verbatim>\<open>audioBuffer\<close> and
  \<^verbatim>\<open>animationFrame\<close> record presence; \<^verbatim>\<open>audioSource\<close> is the node the field refers
  to; \<^verbatim>\<open>contextTime\<close> is the reading of the clock \<^verbatim>\<open>audioContext.currentTime\<close> at the
  call; \<^verbatim>\<open>tickPosition\<close> is \<^verbatim>\<open>alphaTab.tickPosition\<close> and \<^verbatim>\<open>currentBarText\<close> the
  number shown by \<^verbatim>\<open>elements.currentBar\<close>.

  The source nodes live in the audio graph, not in the player, and the player reaches a
  node only through the field \<^verbatim>\<open>audioSource\<close>. The model keeps every node the player has
  started, latest first, in one of three places: the node in \<^verbatim>\<open>audioSource\<close> sounds and
  carries the handler; \<^verbatim>\<open>stoppedNodes\<close> are the nodes \<^verbatim>\<open>pause()\<close> has stopped, after
  detaching their handler; \<^verbatim>\<open>orphanedNodes\<close> are the nodes that \<^verbatim>\<open>play()\<close> dropped from
  the field by overwriting it, which go on sounding with their handler attached.
\<close>

record SyncedPlayer =
  audioBuffer :: bool
  audioSource :: "bufferSource option"
  markers :: "marker list option"
  isPlaying :: bool
  isLooping :: bool
  currentTime :: real
  duration :: real
  playbackRate :: real
  startedAt :: real
  pausedAt :: real
  animationFrame :: bool
  currentBar :: int
  barTickMap :: "barTicks list"
  contextTime :: real
  tickPosition :: int
  currentBarText :: int
  stoppedNodes :: "bufferSource list"
  orphanedNodes :: "bufferSource list"

text \<open>\<^verbatim>\<open>this.notationOffset = -0.15\<close>, set by the constructor and never written again.\<close>

definition notationOffset :: real where
  "notationOffset = - (15 / 100)"

text \<open>
  The loop of \<^verbatim>\<open>updateCursor\<close> from index \<^verbatim>\<open>i\<close> on, over
  \<^verbatim>\<open>(currentBarIndex, currentBarTime, nextBarTime)\<close>.
\<close>

function playerScan ::
  "marker list \<Rightarrow> real \<Rightarrow> real \<Rightarrow> nat \<Rightarrow> nat \<times> real \<times> real \<Rightarrow> nat \<times> real \<times> real" where
  "playerScan ms dur adjustedTime i vars =
     (if i < length ms then
        (if adjustedTime \<ge> time (ms ! i)
         then playerScan ms dur adjustedTime (i + 1)
                (i, time (ms ! i), if i + 1 < length ms then time (ms ! (i + 1)) else dur)
         else vars)
      else vars)"
  by pat_completeness auto
termination
  by (relation "measure (\<lambda>(ms, dur, t, i, vars). length ms - i)") auto

declare playerScan.simps [simp del]

text \<open>The loop with its initial values \<^verbatim>\<open>currentBarIndex = 0\<close>,
  \<^verbatim>\<open>currentBarTime = 0\<close>, \<^verbatim>\<open>nextBarTime = this.duration\<close>.\<close>

definition playerResolve :: "marker list \<Rightarrow> real \<Rightarrow> real \<Rightarrow> nat \<times> real \<times> real" where
  "playerResolve ms dur adjustedTime = playerScan ms dur adjustedTime 0 (0, 0, dur)"

text \<open>\<^verbatim>\<open>barProgress\<close> in \<^verbatim>\<open>updateCursor\<close>.\<close>

definition barProgress :: "real \<Rightarrow> real \<Rightarrow> real \<Rightarrow> real" where
  "barProgress adjustedTime currentBarTime nextBarTime =
     (let barDuration = nextBarTime - currentBarTime;
          timeInBar = adjustedTime - currentBarTime
      in if barDuration > 0 then min 1 (max 0 (timeInBar / barDuration)) else 0)"

text \<open>
  The value of \<^verbatim>\<open>barProgress\<close> that \<^verbatim>\<open>updateCursor\<close> computes at the adjusted time
  from the variables the loop leaves behind.
\<close>

definition playerProgressAt :: "marker list \<Rightarrow> real \<Rightarrow> real \<Rightarrow> real" where
  "playerProgressAt ms dur adjustedTime =
     (case playerResolve ms dur adjustedTime of
        (currentBarIndex, currentBarTime, nextBarTime) \<Rightarrow>
          barProgress adjustedTime currentBarTime nextBarTime)"

text \<open>
  \<^verbatim>\<open>updateCursor()\<close>. \<^verbatim>\<open>this.syncData.markers[currentBarIndex]\<close> is
  \<^verbatim>\<open>undefined\<close> exactly when the index is not below the length. The cursor is
  written inside \<^verbatim>\<open>try { ... } catch (e) {}\<close>; a non-empty tick map was built from
  alphaTab, so alphaTab is present at the write.
\<close>

definition updateCursor :: "SyncedPlayer \<Rightarrow> SyncedPlayer" where
  "updateCursor p =
     (case markers p of
        None \<Rightarrow> p
      | Some ms \<Rightarrow>
          (let adjustedTime = currentTime p + notationOffset
           in (case playerResolve ms (duration p) adjustedTime of
                 (currentBarIndex, currentBarTime, nextBarTime) \<Rightarrow>
                   if \<not> currentBarIndex < length ms then p
                   else
                     (let barNumber = bar (ms ! currentBarIndex);
                          p1 = (if barNumber \<noteq> currentBar p
                                then p\<lparr>currentBar := barNumber, currentBarText := barNumber\<rparr>
                                else p)
                      in if length (barTickMap p1) = 0 then p1
                         else (case tickLookup (barTickMap p1) barNumber of
                                 None \<Rightarrow> p1
                               | Some bt \<Rightarrow>
                                   p1\<lparr>tickPosition :=
                                        interpolateTick bt
                                          (barProgress adjustedTime currentBarTime
                                             nextBarTime)\<rparr>)))))"

text \<open>
  \<^verbatim>\<open>play()\<close>: a new source node at the current rate, with the handler attached, started
  at \<^verbatim>\<open>pausedAt\<close>; the frame loop is scheduled. The field is overwritten: a node it
  referred to before is not stopped here and becomes an orphan. The quotient is only
  meaningful for a non-zero rate: with the rate 0 the code's \<^verbatim>\<open>startedAt\<close> is
  \<^verbatim>\<open>-Infinity\<close> or \<^verbatim>\<open>NaN\<close>, which no real number models.
\<close>

definition play :: "SyncedPlayer \<Rightarrow> SyncedPlayer" where
  "play p =
     (if \<not> audioBuffer p then p
      else p\<lparr>orphanedNodes :=
               (case audioSource p of
                  None \<Rightarrow> orphanedNodes p
                | Some old \<Rightarrow> old # orphanedNodes p),
             audioSource := Some \<lparr>rate = playbackRate p, offset = pausedAt p\<rparr>,
             startedAt := contextTime p - pausedAt p / playbackRate p,
             isPlaying := True,
             animationFrame := True\<rparr>)"

text \<open>
  \<^verbatim>\<open>pause()\<close>: the position is taken from the clock; if the field holds a node, its
  handler is detached, the node is stopped and the field is cleared; the frame loop is
  cancelled.
\<close>

definition pause :: "SyncedPlayer \<Rightarrow> SyncedPlayer" where
  "pause p =
     (if \<not> isPlaying p then p
      else p\<lparr>pausedAt := (contextTime p - startedAt p) * playbackRate p,
             stoppedNodes :=
               (case audioSource p of
                  None \<Rightarrow> stoppedNodes p
                | Some node \<Rightarrow> node # stoppedNodes p),
             audioSource := None,
             isPlaying := False,
             animationFrame := False\<rparr>)"

text \<open>\<^verbatim>\<open>stop()\<close>.\<close>

definition stop :: "SyncedPlayer \<Rightarrow> SyncedPlayer" where
  "stop p =
     (let p1 = pause p;
          p2 = p1\<lparr>pausedAt := 0, currentTime := 0, currentBar := 0\<rparr>;
          p3 = updateCursor p2
      in p3\<lparr>currentBarText := 1\<rparr>)"

text \<open>\<^verbatim>\<open>seekTo(time)\<close>.\<close>

definition seekTo :: "real \<Rightarrow> SyncedPlayer \<Rightarrow> SyncedPlayer" where
  "seekTo t p =
     (let wasPlaying = isPlaying p;
          p1 = (if wasPlaying then pause p else p);
          p2 = p1\<lparr>pausedAt := max 0 (min t (duration p1))\<rparr>;
          p3 = p2\<lparr>currentTime := pausedAt p2\<rparr>;
          p4 = updateCursor p3
      in if wasPlaying then play p4 else p4)"

text \<open>The \<^verbatim>\<open>onended\<close> handler that \<^verbatim>\<open>play()\<close> attaches to the source node.\<close>

definition onended :: "SyncedPlayer \<Rightarrow> SyncedPlayer" where
  "onended p =
     (if isPlaying p then
        (if isLooping p then play (seekTo 0 p) else stop p)
      else p)"

text \<open>
  One run of the closure \<^verbatim>\<open>update\<close> of \<^verbatim>\<open>startUpdateLoop()\<close>, the frame tick: the
  current time is read from the clock and capped at the duration, the cursor is updated
  and the next frame stays requested.
\<close>

definition updateFrame :: "SyncedPlayer \<Rightarrow> SyncedPlayer" where
  "updateFrame p =
     (if \<not> isPlaying p then p
      else let p1 = p\<lparr>currentTime := (contextTime p - startedAt p) * playbackRate p\<rparr>;
               p2 = (if currentTime p1 \<ge> duration p1
                     then p1\<lparr>currentTime := duration p1\<rparr>
                     else p1)
           in updateCursor p2)"

text \<open>\<^verbatim>\<open>toggleLoop()\<close>.\<close>

definition toggleLoop :: "SyncedPlayer \<Rightarrow> SyncedPlayer" where
  "toggleLoop p = p\<lparr>isLooping := \<not> isLooping p\<rparr>"

text \<open>The tempo slider's \<^verbatim>\<open>input\<close> handler; \<^verbatim>\<open>v\<close> is \<^verbatim>\<open>parseInt(e.target.value)\<close>.\<close>

definition tempoInput :: "int \<Rightarrow> SyncedPlayer \<Rightarrow> SyncedPlayer" where
  "tempoInput v p =
     (let p1 = p\<lparr>playbackRate := real_of_int v / 100\<rparr>
      in case audioSource p1 of
           None \<Rightarrow> p1
         | Some src \<Rightarrow> p1\<lparr>audioSource := Some (src\<lparr>rate := playbackRate p1\<rparr>)\<rparr>)"

text \<open>
  A player as the constructor leaves it, after a score with tick map \<^verbatim>\<open>tm\<close>, an audio
  buffer of length \<^verbatim>\<open>dur\<close> and the markers \<^verbatim>\<open>ms\<close> have been loaded.
\<close>

definition loadedPlayer :: "marker list \<Rightarrow> real \<Rightarrow> barTicks list \<Rightarrow> SyncedPlayer" where
  "loadedPlayer ms dur tm =
     \<lparr>audioBuffer = True, audioSource = None, markers = Some ms, isPlaying = False,
      isLooping = False, currentTime = 0, duration = dur, playbackRate = 1, startedAt = 0,
      pausedAt = 0, animationFrame = False, currentBar = 0, barTickMap = tm,
      contextTime = 0, tickPosition = 0, currentBarText = 0,
      stoppedNodes = [], orphanedNodes = []\<rparr>"

text \<open>The markers of the four-bar scenario: taps at 0.0, 2.0, 4.1 and 6.0 seconds.\<close>

definition exampleMarkers :: "marker list" where
  "exampleMarkers =
     [\<lparr>bar = 1, time = 0\<rparr>, \<lparr>bar = 2, time = 2\<rparr>,
      \<lparr>bar = 3, time = 41 / 10\<rparr>, \<lparr>bar = 4, time = 6\<rparr>]"

text \<open>Markers out of order: two at the same time, and a later one with an earlier time.\<close>

definition unorderedMarkers :: "marker list" where
  "unorderedMarkers = [\<lparr>bar = 1, time = 5\<rparr>, \<lparr>bar = 2, time = 5\<rparr>, \<lparr>bar = 3, time = 1\<rparr>]"

section \<open>Recording session: lemmas\<close>

lemma scrollToBar_fields:
  "beatMarkers (scrollToBar b s) = beatMarkers s"
  "currentBarToMark (scrollToBar b s) = currentBarToMark s"
  "ed_totalBars (scrollToBar b s) = ed_totalBars s"
  "wavesurfer (scrollToBar b s) = wavesurfer s"
  "ed_score (scrollToBar b s) = ed_score s"
  by (simp_all add: scrollToBar_def split: option.split)

lemma scrollToBar_cursor_only:
  "scrollToBar b s = s\<lparr>ed_tickPosition := ed_tickPosition (scrollToBar b s)\<rparr>"
  by (simp add: scrollToBar_def split: option.split)

lemma barsInOrder_tap: "barsInOrder s \<Longrightarrow> barsInOrder (recordBeatMarker t s)"
  by (simp add: barsInOrder_def recordBeatMarker_def scrollToBar_fields)

lemma barsInOrder_undo: "barsInOrder s \<Longrightarrow> barsInOrder (undoLastMarker s)"
proof (cases "beatMarkers s" rule: rev_cases)
  case Nil
  assume "barsInOrder s"
  with Nil show ?thesis by (simp add: undoLastMarker_def)
next
  case (snoc ms m)
  assume "barsInOrder s"
  with snoc show ?thesis by (simp add: barsInOrder_def undoLastMarker_def)
qed

lemma barsInOrder_clear: "barsInOrder s \<Longrightarrow> barsInOrder (clearAllMarkers c s)"
  by (simp add: barsInOrder_def clearAllMarkers_def)

lemma barsInOrder_applyOp: "barsInOrder s \<Longrightarrow> barsInOrder (applyOp s x)"
  by (cases x) (simp_all add: barsInOrder_tap barsInOrder_undo barsInOrder_clear)

lemma barsInOrder_foldl: "barsInOrder s \<Longrightarrow> barsInOrder (foldl applyOp s ops)"
  by (induction ops arbitrary: s) (simp_all add: barsInOrder_applyOp)

section \<open>The marker scans: lemmas\<close>

text \<open>One round of either loop, and the loop run up to the marker at which it stops.\<close>

lemma editorScan_stop:
  "\<not> i < length ms \<or> t < time (ms ! i) \<Longrightarrow> editorScan ms t i vars = vars"
  by (subst editorScan.simps) auto

lemma editorScan_step:
  "i < length ms \<Longrightarrow> time (ms ! i) \<le> t \<Longrightarrow>
   editorScan ms t i vars =
     editorScan ms t (Suc i) (bar (ms ! i), time (ms ! i), timeOrNull ms (Suc i))"
  by (subst editorScan.simps) simp

lemma editorScan_run:
  assumes "k < length ms" and "i \<le> k"
    and "\<forall>j. i \<le> j \<and> j \<le> k \<longrightarrow> time (ms ! j) \<le> t"
    and "Suc k < length ms \<longrightarrow> t < time (ms ! Suc k)"
  shows "editorScan ms t i vars = (bar (ms ! k), time (ms ! k), timeOrNull ms (Suc k))"
  using assms
proof (induction "k - i" arbitrary: i vars)
  case 0
  then have ik: "i = k" by simp
  have "editorScan ms t k vars =
          editorScan ms t (Suc k) (bar (ms ! k), time (ms ! k), timeOrNull ms (Suc k))"
    using "0.prems" ik by (intro editorScan_step) auto
  also have "\<dots> = (bar (ms ! k), time (ms ! k), timeOrNull ms (Suc k))"
    using "0.prems"(4) by (intro editorScan_stop) auto
  finally show ?case using ik by simp
next
  case (Suc d)
  then have lt: "i < k" by simp
  have "editorScan ms t i vars =
          editorScan ms t (Suc i) (bar (ms ! i), time (ms ! i), timeOrNull ms (Suc i))"
    using Suc.prems lt by (intro editorScan_step) auto
  also have "\<dots> = (bar (ms ! k), time (ms ! k), timeOrNull ms (Suc k))"
    using Suc.prems Suc.hyps lt by (intro Suc.hyps(1)) auto
  finally show ?case .
qed

lemma playerScan_stop:
  "\<not> i < length ms \<or> t < time (ms ! i) \<Longrightarrow> playerScan ms dur t i vars = vars"
  by (subst playerScan.simps) auto

lemma playerScan_step:
  "i < length ms \<Longrightarrow> time (ms ! i) \<le> t \<Longrightarrow>
   playerScan ms dur t i vars =
     playerScan ms dur t (Suc i)
       (i, time (ms ! i), if Suc i < length ms then time (ms ! Suc i) else dur)"
  by (subst playerScan.simps) simp

lemma playerScan_run:
  assumes "k < length ms" and "i \<le> k"
    and "\<forall>j. i \<le> j \<and> j \<le> k \<longrightarrow> time (ms ! j) \<le> t"
    and "Suc k < length ms \<longrightarrow> t < time (ms ! Suc k)"
  shows "playerScan ms dur t i vars =
           (k, time (ms ! k), if Suc k < length ms then time (ms ! Suc k) else dur)"
  using assms
proof (induction "k - i" arbitrary: i vars)
  case 0
  then have ik: "i = k" by simp
  have "playerScan ms dur t k vars =
          playerScan ms dur t (Suc k)
            (k, time (ms ! k), if Suc k < length ms then time (ms ! Suc k) else dur)"
    using "0.prems" ik by (intro playerScan_step) auto
  also have "\<dots> = (k, time (ms ! k), if Suc k < length ms then time (ms ! Suc k) else dur)"
    using "0.prems"(4) by (intro playerScan_stop) auto
  finally show ?case using ik by simp
next
  case (Suc d)
  then have lt: "i < k" by simp
  have "playerScan ms dur t i vars =
          playerScan ms dur t (Suc i)
            (i, time (ms ! i), if Suc i < length ms then time (ms ! Suc i) else dur)"
    using Suc.prems lt by (intro playerScan_step) auto
  also have "\<dots> = (k, time (ms ! k), if Suc k < length ms then time (ms ! Suc k) else dur)"
    using Suc.prems Suc.hyps lt by (intro Suc.hyps(1)) auto
  finally show ?case .
qed

lemma sorted_times_nth:
  "sorted (map time ms) \<Longrightarrow> i \<le> j \<Longrightarrow> j < length ms \<Longrightarrow> time (ms ! i) \<le> time (ms ! j)"
  using sorted_nth_mono [of "map time ms" i j] by simp

section \<open>The player's cursor update: lemmas\<close>

lemma updateCursor_resolved:
  assumes "markers p = Some ms"
    and "playerResolve ms (duration p) (currentTime p + notationOffset) = (k, cbt, nbt)"
    and "k < length ms"
  shows "currentBar (updateCursor p) = bar (ms ! k)"
    and "tickLookup (barTickMap p) (bar (ms ! k)) = Some bt \<Longrightarrow>
         tickPosition (updateCursor p) =
           interpolateTick bt (barProgress (currentTime p + notationOffset) cbt nbt)"
    and "tickLookup (barTickMap p) (bar (ms ! k)) = None \<Longrightarrow>
         tickPosition (updateCursor p) = tickPosition p"
  using assms by (auto simp add: updateCursor_def Let_def tickLookup_def split: option.split)

lemma updateCursor_fields:
  "markers (updateCursor p) = markers p"
  "duration (updateCursor p) = duration p"
  "currentTime (updateCursor p) = currentTime p"
  "pausedAt (updateCursor p) = pausedAt p"
  "isPlaying (updateCursor p) = isPlaying p"
  "isLooping (updateCursor p) = isLooping p"
  "audioBuffer (updateCursor p) = audioBuffer p"
  "audioSource (updateCursor p) = audioSource p"
  "playbackRate (updateCursor p) = playbackRate p"
  "contextTime (updateCursor p) = contextTime p"
  "animationFrame (updateCursor p) = animationFrame p"
  "barTickMap (updateCursor p) = barTickMap p"
  "startedAt (updateCursor p) = startedAt p"
  "stoppedNodes (updateCursor p) = stoppedNodes p"
  "orphanedNodes (updateCursor p) = orphanedNodes p"
  by (simp_all add: updateCursor_def Let_def split: option.split prod.split)

section \<open>Progress and the resolved marker: lemmas\<close>

lemma clamp01_mono: "x \<le> y \<Longrightarrow> min 1 (max 0 x) \<le> min (1::real) (max 0 y)"
  by (simp add: min_def max_def)

lemma barProgress_mono:
  assumes "t \<le> u"
  shows "barProgress t c n \<le> barProgress u c n"
proof (cases "n - c > 0")
  case True
  then have "(t - c) / (n - c) \<le> (u - c) / (n - c)"
    using assms by (simp add: divide_right_mono)
  then have "min 1 (max 0 ((t - c) / (n - c))) \<le> min 1 (max 0 ((u - c) / (n - c)))"
    by (rule clamp01_mono)
  with True show ?thesis
    by (simp only: barProgress_def Let_def if_True)
next
  case False
  then show ?thesis by (simp add: barProgress_def Let_def)
qed

text \<open>Where the editor interpolates at all, it computes the player's quotient.\<close>

lemma editorProgress_Some:
  "n \<noteq> 0 \<Longrightarrow> editorProgress t c (Some n) = barProgress t c n"
  by (simp add: editorProgress_def barProgress_def Let_def)

lemma editorProgress_mono:
  assumes "t \<le> u"
  shows "editorProgress t c n \<le> editorProgress u c n"
proof (cases n)
  case None
  then show ?thesis by (simp add: editorProgress_def)
next
  case (Some a)
  show ?thesis
  proof (cases "a = 0")
    case True
    with Some show ?thesis by (simp add: editorProgress_def)
  next
    case False
    then have "editorProgress t c (Some a) = barProgress t c a"
      and "editorProgress u c (Some a) = barProgress u c a"
      by (rule editorProgress_Some)+
    with Some barProgress_mono [OF assms, of c a] show ?thesis by simp
  qed
qed

lemma editorProgress_range: "0 \<le> editorProgress t c n \<and> editorProgress t c n \<le> 1"
  by (cases n) (simp_all add: editorProgress_def Let_def)

lemma barProgress_range: "0 \<le> barProgress t c n \<and> barProgress t c n \<le> 1"
  by (simp add: barProgress_def Let_def)

lemma highlight_lastSyncedBar:
  "editorResolve (beatMarkers s) t = (b, c, n) \<Longrightarrow> 0 < b \<Longrightarrow>
   lastSyncedBar (highlightCurrentBar t s) = b"
  by (auto simp add: highlightCurrentBar_def Let_def scrollToBar_def split: option.split)

lemma editorResolve_before:
  "\<forall>m \<in> set ms. t < time m \<Longrightarrow> editorResolve ms t = (0, 0, None)"
  unfolding editorResolve_def by (rule editorScan_stop) (cases ms, auto)

lemma playerResolve_before:
  "\<forall>m \<in> set ms. t < time m \<Longrightarrow> playerResolve ms dur t = (0, 0, dur)"
  unfolding playerResolve_def by (rule playerScan_stop) (cases ms, auto)

lemma editorResolve_at:
  assumes "sorted (map time ms)" and "k < length ms" and "time (ms ! k) \<le> t"
    and "Suc k < length ms \<longrightarrow> t < time (ms ! Suc k)"
  shows "editorResolve ms t = (bar (ms ! k), time (ms ! k), timeOrNull ms (Suc k))"
  unfolding editorResolve_def
proof (rule editorScan_run)
  show "\<forall>j. 0 \<le> j \<and> j \<le> k \<longrightarrow> time (ms ! j) \<le> t"
    using assms sorted_times_nth [of ms _ k] by fastforce
qed (use assms in auto)

lemma playerResolve_at:
  assumes "sorted (map time ms)" and "k < length ms" and "time (ms ! k) \<le> t"
    and "Suc k < length ms \<longrightarrow> t < time (ms ! Suc k)"
  shows "playerResolve ms dur t =
           (k, time (ms ! k), if Suc k < length ms then time (ms ! Suc k) else dur)"
  unfolding playerResolve_def
proof (rule playerScan_run)
  show "\<forall>j. 0 \<le> j \<and> j \<le> k \<longrightarrow> time (ms ! j) \<le> t"
    using assms sorted_times_nth [of ms _ k] by fastforce
qed (use assms in auto)

lemma highlight_before:
  "editorResolve (beatMarkers s) t = (0, c, n) \<Longrightarrow> highlightCurrentBar t s = s"
  by (simp add: highlightCurrentBar_def)

lemma updateCursor_no_markers:
  "markers p = None \<or> markers p = Some [] \<Longrightarrow> updateCursor p = p"
  by (auto simp add: updateCursor_def Let_def split: prod.split)

lemma updateCursor_tick:
  assumes "markers p = Some ms"
    and "playerResolve ms (duration p) (currentTime p + notationOffset) = (k, c, e)"
    and "k < length ms"
    and "tickLookup (barTickMap p) (bar (ms ! k)) = Some bt"
  shows "tickPosition (updateCursor p) =
           interpolateTick bt (playerProgressAt ms (duration p) (currentTime p + notationOffset))"
  using updateCursor_resolved(2) [OF assms] assms(2) by (simp add: playerProgressAt_def)

lemma highlight_tick:
  assumes "editorResolve (beatMarkers s) t = (b, c, e)" and "0 < b"
    and "tickLookup (ed_barTickMap s) b = Some bt"
    and "lastTick s = 0" and "ed_alphaTab s"
  shows "ed_tickPosition (highlightCurrentBar t s) =
           interpolateTick bt (editorProgressAt (beatMarkers s) t)"
  using assms
  by (auto simp add: highlightCurrentBar_def editorProgressAt_def scrollToBar_def Let_def)



lemma interpolateTick_0: "interpolateTick bt 0 = startTick bt"
  by (simp add: interpolateTick_def)

lemma barProgress_nonpos:
  assumes "t \<le> c"
  shows "barProgress t c n = 0"
proof (cases "n - c > 0")
  case True
  with assms have "(t - c) / (n - c) \<le> 0"
    by (intro divide_nonpos_pos) simp_all
  then have "min 1 (max 0 ((t - c) / (n - c))) = 0" by simp
  with True show ?thesis by (simp only: barProgress_def Let_def if_True)
next
  case False
  then show ?thesis by (simp add: barProgress_def)
qed




text \<open>
  Three facts that hold in a player as loaded and that every operation keeps: a playing
  player has its buffer and a node in the field; the duration is not negative; the
  current time does not exceed the duration.
\<close>

lemma playing_has_node:
  assumes "isPlaying p \<longrightarrow> audioBuffer p \<and> audioSource p \<noteq> None"
  shows "isPlaying (play p) \<longrightarrow> audioBuffer (play p) \<and> audioSource (play p) \<noteq> None"
    and "isPlaying (pause p) \<longrightarrow> audioBuffer (pause p) \<and> audioSource (pause p) \<noteq> None"
    and "isPlaying (updateCursor p) \<longrightarrow>
           audioBuffer (updateCursor p) \<and> audioSource (updateCursor p) \<noteq> None"
    and "isPlaying (updateFrame p) \<longrightarrow>
           audioBuffer (updateFrame p) \<and> audioSource (updateFrame p) \<noteq> None"
    and "isPlaying (stop p) \<longrightarrow> audioBuffer (stop p) \<and> audioSource (stop p) \<noteq> None"
    and "isPlaying (seekTo t p) \<longrightarrow> audioBuffer (seekTo t p) \<and> audioSource (seekTo t p) \<noteq> None"
    and "isPlaying (onended p) \<longrightarrow> audioBuffer (onended p) \<and> audioSource (onended p) \<noteq> None"
    and "isPlaying (toggleLoop p) \<longrightarrow>
           audioBuffer (toggleLoop p) \<and> audioSource (toggleLoop p) \<noteq> None"
    and "isPlaying (tempoInput v p) \<longrightarrow>
           audioBuffer (tempoInput v p) \<and> audioSource (tempoInput v p) \<noteq> None"
  using assms
  by (auto simp add: play_def pause_def stop_def seekTo_def onended_def toggleLoop_def
      tempoInput_def updateFrame_def Let_def updateCursor_fields split: option.split)

lemma time_within_duration:
  assumes "0 \<le> duration p \<and> currentTime p \<le> duration p"
  shows "0 \<le> duration (play p) \<and> currentTime (play p) \<le> duration (play p)"
    and "0 \<le> duration (pause p) \<and> currentTime (pause p) \<le> duration (pause p)"
    and "0 \<le> duration (updateCursor p) \<and> currentTime (updateCursor p) \<le> duration (updateCursor p)"
    and "0 \<le> duration (updateFrame p) \<and> currentTime (updateFrame p) \<le> duration (updateFrame p)"
    and "0 \<le> duration (stop p) \<and> currentTime (stop p) \<le> duration (stop p)"
    and "0 \<le> duration (seekTo t p) \<and> currentTime (seekTo t p) \<le> duration (seekTo t p)"
    and "0 \<le> duration (onended p) \<and> currentTime (onended p) \<le> duration (onended p)"
    and "0 \<le> duration (toggleLoop p) \<and> currentTime (toggleLoop p) \<le> duration (toggleLoop p)"
    and "0 \<le> duration (tempoInput v p) \<and> currentTime (tempoInput v p) \<le> duration (tempoInput v p)"
  using assms
  by (auto simp add: play_def pause_def stop_def seekTo_def onended_def toggleLoop_def
      tempoInput_def updateFrame_def Let_def updateCursor_fields split: option.split)

lemma highlight_without_end:
  assumes "editorResolve (beatMarkers s) t = (b, c, None)"
  shows "tickLookup (ed_barTickMap s) b = Some bt \<Longrightarrow>
           ed_tickPosition (highlightCurrentBar t s) = ed_tickPosition s \<or>
           ed_tickPosition (highlightCurrentBar t s) = startTick bt"
    and "tickLookup (ed_barTickMap s) b = None \<Longrightarrow>
           ed_tickPosition (highlightCurrentBar t s) = ed_tickPosition s"
    and "tickLookup (ed_barTickMap s) b = Some bt \<Longrightarrow> 0 < b \<Longrightarrow> ed_alphaTab s \<Longrightarrow>
           lastSyncedBar s \<noteq> b \<or> lastTick s = 0 \<or> 100 < \<bar>startTick bt - lastTick s\<bar> \<Longrightarrow>
           ed_tickPosition (highlightCurrentBar t s) = startTick bt"
  using assms
  by (auto simp add: highlightCurrentBar_def scrollToBar_def Let_def editorProgress_def
      interpolateTick_0)

lemma last_bar_progress:
  assumes "sorted (map time ms)" and "ms \<noteq> []" and "time (last ms) \<le> t" and "t < d"
  shows "playerResolve ms d t = (length ms - 1, time (last ms), d)"
    and "playerProgressAt ms d t = (t - time (last ms)) / (d - time (last ms))"
    and "0 \<le> playerProgressAt ms d t" and "playerProgressAt ms d t < 1"
proof -
  let ?k = "length ms - 1"
  let ?s = "time (last ms)"
  have k: "?k < length ms" and sk: "\<not> Suc ?k < length ms" and l: "ms ! ?k = last ms"
    using assms(2) by (simp_all add: last_conv_nth)
  have tk: "time (ms ! ?k) \<le> t" using assms(3) l by simp
  show r: "playerResolve ms d t = (?k, ?s, d)"
    using playerResolve_at [OF assms(1) k tk, of d] sk l by simp
  have pos: "0 < d - ?s" using assms(3,4) by simp
  have q0: "0 \<le> (t - ?s) / (d - ?s)"
    using assms(3) pos by (intro divide_nonneg_pos) simp_all
  have q1: "(t - ?s) / (d - ?s) < 1"
    using assms(4) pos by (simp add: divide_less_eq)
  have "barProgress t ?s d = min 1 (max 0 ((t - ?s) / (d - ?s)))"
    using pos by (simp add: barProgress_def Let_def)
  also have "\<dots> = (t - ?s) / (d - ?s)"
    using q0 q1 by (simp add: min_def max_def)
  finally have bp: "barProgress t ?s d = (t - ?s) / (d - ?s)" .
  show "playerProgressAt ms d t = (t - ?s) / (d - ?s)"
    by (simp add: playerProgressAt_def r bp)
  then show "0 \<le> playerProgressAt ms d t" and "playerProgressAt ms d t < 1"
    using q0 q1 by simp_all
qed

section \<open>Recording session: tap, undo, clear\<close>

text \<open>
  Claim C7, in every state. When all bars are marked the tap is refused, and the undo
  that follows removes a marker that was there before: after one tap in a one-bar score
  (reached by the tap itself), a second tap changes nothing and the undo leaves no marker
  and the counter at 1.
\<close>

theorem rejected_tap_undo_counterexample:
  "beatMarkers (recordBeatMarker 0 (loadedEditor 1 exampleTicks)) = [\<lparr>bar = 1, time = 0\<rparr>] \<and>
   currentBarToMark (recordBeatMarker 0 (loadedEditor 1 exampleTicks)) = 2 \<and>
   ed_totalBars (recordBeatMarker 0 (loadedEditor 1 exampleTicks)) = 1 \<and>
   recordBeatMarker 3 (recordBeatMarker 0 (loadedEditor 1 exampleTicks)) =
     recordBeatMarker 0 (loadedEditor 1 exampleTicks) \<and>
   beatMarkers (undoLastMarker
     (recordBeatMarker 3 (recordBeatMarker 0 (loadedEditor 1 exampleTicks)))) = [] \<and>
   currentBarToMark (undoLastMarker
     (recordBeatMarker 3 (recordBeatMarker 0 (loadedEditor 1 exampleTicks)))) = 1"
  by (simp add: recordBeatMarker_def undoLastMarker_def loadedEditor_def scrollToBar_def
      tickLookup_def exampleTicks_def Let_def)

text \<open>
  Claim C7, as amended. In every state in which the tap is accepted (audio and score
  loaded, \<^verbatim>\<open>currentBarToMark\<close> at most \<^verbatim>\<open>totalBars\<close>), the tap appends the marker of the
  current bar at the current audio time and increments \<^verbatim>\<open>currentBarToMark\<close>, and an
  undo right after it gives back the marker list and the counter as they were; the whole
  state is as before, up to the cursor that \<^verbatim>\<open>scrollToBar\<close> moved at the tap. An undo on
  an empty marker list changes nothing.
\<close>

theorem tap_undo_roundtrip:
  "(wavesurfer s \<and> ed_score s \<and> currentBarToMark s \<le> ed_totalBars s \<longrightarrow>
      beatMarkers (recordBeatMarker t s) =
        beatMarkers s @ [\<lparr>bar = currentBarToMark s, time = t\<rparr>] \<and>
      currentBarToMark (recordBeatMarker t s) = currentBarToMark s + 1 \<and>
      beatMarkers (undoLastMarker (recordBeatMarker t s)) = beatMarkers s \<and>
      currentBarToMark (undoLastMarker (recordBeatMarker t s)) = currentBarToMark s \<and>
      undoLastMarker (recordBeatMarker t s) =
        s\<lparr>ed_tickPosition := ed_tickPosition (recordBeatMarker t s)\<rparr>) \<and>
   (beatMarkers s = [] \<longrightarrow> undoLastMarker s = s)"
proof (intro conjI impI)
  assume ok: "wavesurfer s \<and> ed_score s \<and> currentBarToMark s \<le> ed_totalBars s"
  define s2 where
    "s2 = s\<lparr>beatMarkers := beatMarkers s @ [\<lparr>bar = currentBarToMark s, time = t\<rparr>],
            currentBarToMark := currentBarToMark s + 1\<rparr>"
  have tap: "recordBeatMarker t s = scrollToBar (currentBarToMark s + 1) s2"
    using ok by (simp add: recordBeatMarker_def s2_def Let_def)
  show m: "beatMarkers (recordBeatMarker t s) =
             beatMarkers s @ [\<lparr>bar = currentBarToMark s, time = t\<rparr>]"
    by (simp add: tap scrollToBar_fields s2_def)
  show c: "currentBarToMark (recordBeatMarker t s) = currentBarToMark s + 1"
    by (simp add: tap scrollToBar_fields s2_def)
  show "beatMarkers (undoLastMarker (recordBeatMarker t s)) = beatMarkers s"
    by (simp add: undoLastMarker_def m)
  show "currentBarToMark (undoLastMarker (recordBeatMarker t s)) = currentBarToMark s"
    by (simp add: undoLastMarker_def m c)
  have "recordBeatMarker t s = s2\<lparr>ed_tickPosition := ed_tickPosition (recordBeatMarker t s)\<rparr>"
    unfolding tap by (rule scrollToBar_cursor_only)
  then have "undoLastMarker (recordBeatMarker t s) =
               undoLastMarker (s2\<lparr>ed_tickPosition := ed_tickPosition (recordBeatMarker t s)\<rparr>)"
    by simp
  also have "\<dots> = s\<lparr>ed_tickPosition := ed_tickPosition (recordBeatMarker t s)\<rparr>"
    by (simp add: undoLastMarker_def s2_def)
  finally show "undoLastMarker (recordBeatMarker t s) =
                  s\<lparr>ed_tickPosition := ed_tickPosition (recordBeatMarker t s)\<rparr>" .
next
  assume "beatMarkers s = []"
  then show "undoLastMarker s = s" by (simp add: undoLastMarker_def)
qed

theorem tap_undo_roundtrip_witness:
  "wavesurfer (loadedEditor 4 exampleTicks) \<and> ed_score (loadedEditor 4 exampleTicks) \<and>
   currentBarToMark (loadedEditor 4 exampleTicks) \<le> ed_totalBars (loadedEditor 4 exampleTicks) \<and>
   beatMarkers (loadedEditor 4 exampleTicks) = [] \<and>
   beatMarkers (recordBeatMarker (5 / 2) (loadedEditor 4 exampleTicks)) =
     [\<lparr>bar = 1, time = 5 / 2\<rparr>] \<and>
   currentBarToMark (recordBeatMarker (5 / 2) (loadedEditor 4 exampleTicks)) = 2 \<and>
   beatMarkers (undoLastMarker (recordBeatMarker (5 / 2) (loadedEditor 4 exampleTicks))) = [] \<and>
   currentBarToMark (undoLastMarker (recordBeatMarker (5 / 2) (loadedEditor 4 exampleTicks))) = 1 \<and>
   undoLastMarker (loadedEditor 4 exampleTicks) = loadedEditor 4 exampleTicks"
proof -
  have h: "wavesurfer (loadedEditor 4 exampleTicks) \<and> ed_score (loadedEditor 4 exampleTicks) \<and>
           currentBarToMark (loadedEditor 4 exampleTicks) \<le> ed_totalBars (loadedEditor 4 exampleTicks)"
    by (simp add: loadedEditor_def)
  have e: "beatMarkers (loadedEditor 4 exampleTicks) = []"
          "currentBarToMark (loadedEditor 4 exampleTicks) = 1"
    by (simp_all add: loadedEditor_def)
  show ?thesis
    using h e tap_undo_roundtrip [of "loadedEditor 4 exampleTicks" "5 / 2"] by simp
qed

text \<open>
  Claim C8. When all bars are marked (\<^verbatim>\<open>currentBarToMark > totalBars\<close>) a tap changes
  nothing, neither the marker list nor the counter, and so does every further run of taps:
  only an undo or a clear can change the list again.
\<close>

theorem tap_when_complete_noop:
  "currentBarToMark s > ed_totalBars s \<Longrightarrow>
   recordBeatMarker t s = s \<and>
   length (beatMarkers (recordBeatMarker t s)) = length (beatMarkers s) \<and>
   currentBarToMark (recordBeatMarker t s) = currentBarToMark s \<and>
   runSession (map Tap ts) s = s"
proof -
  assume full: "currentBarToMark s > ed_totalBars s"
  then have one: "recordBeatMarker u s = s" for u
    by (simp add: recordBeatMarker_def)
  have "foldl applyOp s (map Tap ts) = s"
    by (induction ts) (simp_all add: one)
  then show ?thesis by (simp add: one runSession_def)
qed

theorem tap_when_complete_noop_witness:
  "currentBarToMark ((loadedEditor 1 exampleTicks)\<lparr>beatMarkers := [\<lparr>bar = 1, time = 0\<rparr>],
      currentBarToMark := 2\<rparr>) >
     ed_totalBars ((loadedEditor 1 exampleTicks)\<lparr>beatMarkers := [\<lparr>bar = 1, time = 0\<rparr>],
      currentBarToMark := 2\<rparr>) \<and>
   beatMarkers (recordBeatMarker 3 ((loadedEditor 1 exampleTicks)\<lparr>beatMarkers := [\<lparr>bar = 1, time = 0\<rparr>],
      currentBarToMark := 2\<rparr>)) = [\<lparr>bar = 1, time = 0\<rparr>] \<and>
   currentBarToMark (runSession [Tap 3, Tap 4] ((loadedEditor 1 exampleTicks)\<lparr>beatMarkers := [\<lparr>bar = 1, time = 0\<rparr>],
      currentBarToMark := 2\<rparr>)) = 2"
proof -
  let ?s = "(loadedEditor 1 exampleTicks)\<lparr>beatMarkers := [\<lparr>bar = 1, time = 0\<rparr>],
      currentBarToMark := 2\<rparr>"
  have h: "currentBarToMark ?s > ed_totalBars ?s"
    by (simp add: loadedEditor_def)
  have v: "beatMarkers ?s = [\<lparr>bar = 1, time = 0\<rparr>]" "currentBarToMark ?s = 2"
    by simp_all
  show ?thesis
    using h v tap_when_complete_noop [OF h, of 3 "[3, 4]"] by simp
qed

text \<open>
  Claim C10. From a state with no markers and \<^verbatim>\<open>currentBarToMark = 1\<close>, after every
  finite sequence of taps, undos and clears the markers carry the bar numbers
  1, 2, ..., count in insertion order, and \<^verbatim>\<open>currentBarToMark\<close> is count + 1.
\<close>

theorem session_bars_in_order:
  "beatMarkers s = [] \<and> currentBarToMark s = 1 \<Longrightarrow>
   map bar (beatMarkers (runSession ops s)) =
     map int [1 ..< Suc (length (beatMarkers (runSession ops s)))] \<and>
   currentBarToMark (runSession ops s) = int (length (beatMarkers (runSession ops s))) + 1"
proof -
  assume "beatMarkers s = [] \<and> currentBarToMark s = 1"
  then have "barsInOrder s" by (simp add: barsInOrder_def)
  then have "barsInOrder (runSession ops s)"
    unfolding runSession_def by (rule barsInOrder_foldl)
  then show ?thesis by (simp add: barsInOrder_def)
qed

theorem session_bars_in_order_witness:
  "beatMarkers (loadedEditor 4 exampleTicks) = [] \<and>
   currentBarToMark (loadedEditor 4 exampleTicks) = 1 \<and>
   map bar (beatMarkers (runSession [Tap 0, Tap 2, Undo, Tap (5 / 2), Clear False, Tap 4]
                           (loadedEditor 4 exampleTicks))) = [1, 2, 3] \<and>
   currentBarToMark (runSession [Tap 0, Tap 2, Undo, Tap (5 / 2), Clear False, Tap 4]
                       (loadedEditor 4 exampleTicks)) = 4"
proof -
  let ?s = "loadedEditor 4 exampleTicks"
  let ?ops = "[Tap 0, Tap 2, Undo, Tap (5 / 2), Clear False, Tap 4]"
  have h: "beatMarkers ?s = [] \<and> currentBarToMark ?s = 1"
    by (simp add: loadedEditor_def)
  have len: "length (beatMarkers (runSession ?ops ?s)) = 3"
    by (simp add: runSession_def loadedEditor_def recordBeatMarker_def undoLastMarker_def
        clearAllMarkers_def scrollToBar_def tickLookup_def exampleTicks_def Let_def)
  have "[1 ..< Suc 3] = [1, 2, 3]" by (simp add: upt_rec)
  then show ?thesis
    using h len session_bars_in_order [OF h, of ?ops] by simp
qed

section \<open>Position resolver\<close>

text \<open>
  Claim C1, at the raw playback time. The player resolves the time shifted by
  \<^verbatim>\<open>notationOffset = -0.15\<close>: with the markers of the four-bar scenario, the playback
  time 2.1 lies between the markers of bars 2 and 3, and \<^verbatim>\<open>updateCursor\<close> emits bar 1,
  the last marker at or before 1.95, not the earlier of the two markers.
\<close>

theorem raw_time_between_markers_counterexample:
  "time (exampleMarkers ! 1) \<le> 21 / 10 \<and> 21 / 10 < time (exampleMarkers ! 2) \<and>
   bar (exampleMarkers ! 1) = 2 \<and>
   currentBar (updateCursor
      ((loadedPlayer exampleMarkers 8 exampleTicks)\<lparr>currentTime := 21 / 10\<rparr>)) = 1"
  by (simp add: updateCursor_def loadedPlayer_def playerResolve_def exampleMarkers_def
      playerScan.simps notationOffset_def Let_def exampleTicks_def tickLookup_def)

text \<open>
  Claim C1, as amended. Let the marker times be non-decreasing and let the offset-adjusted
  time \<^verbatim>\<open>t\<close> (the playback time itself in the editor, the playback time minus 0.15 in
  the player) lie between the times of the consecutive markers \<^verbatim>\<open>i\<close> and \<^verbatim>\<open>i + 1\<close>.
  Then marker \<^verbatim>\<open>i\<close> is the last marker whose time is at most \<^verbatim>\<open>t\<close>, both resolvers
  select it and emit its bar (the editor for bar numbers above 0, its sentinel for
  "no bar"), and for a later time \<^verbatim>\<open>u\<close> in the same interval the within-bar progress
  is at least the progress at \<^verbatim>\<open>t\<close>.
\<close>

theorem resolve_between_markers:
  assumes "sorted (map time ms)" and "Suc i < length ms"
    and "time (ms ! i) \<le> t" and "t \<le> u" and "u < time (ms ! Suc i)"
  shows "(\<forall>j < length ms. time (ms ! j) \<le> t \<longrightarrow> j \<le> i) \<and>
         editorResolve ms t = (bar (ms ! i), time (ms ! i), timeOrNull ms (Suc i)) \<and>
         (beatMarkers s = ms \<and> 0 < bar (ms ! i) \<longrightarrow>
            lastSyncedBar (highlightCurrentBar t s) = bar (ms ! i)) \<and>
         editorProgressAt ms t \<le> editorProgressAt ms u \<and>
         playerResolve ms dur t = (i, time (ms ! i), time (ms ! Suc i)) \<and>
         (markers p = Some ms \<and> currentTime p + notationOffset = t \<longrightarrow>
            currentBar (updateCursor p) = bar (ms ! i)) \<and>
         playerProgressAt ms dur t \<le> playerProgressAt ms dur u"
proof -
  have i: "i < length ms" using assms(2) by simp
  have tlt: "t < time (ms ! Suc i)" using assms(4,5) by simp
  have ui: "time (ms ! i) \<le> u" using assms(3,4) by simp
  have last: "\<forall>j < length ms. time (ms ! j) \<le> t \<longrightarrow> j \<le> i"
  proof (intro allI impI)
    fix j assume j: "j < length ms" and le: "time (ms ! j) \<le> t"
    show "j \<le> i"
    proof (rule ccontr)
      assume "\<not> j \<le> i"
      then have "Suc i \<le> j" by simp
      then have "time (ms ! Suc i) \<le> time (ms ! j)"
        using sorted_times_nth [OF assms(1) _ j] by simp
      with le tlt show False by simp
    qed
  qed
  have et: "editorResolve ms t = (bar (ms ! i), time (ms ! i), timeOrNull ms (Suc i))"
    using assms(1) i assms(3) tlt by (intro editorResolve_at) simp_all
  have eu: "editorResolve ms u = (bar (ms ! i), time (ms ! i), timeOrNull ms (Suc i))"
    using assms(1) i ui assms(5) by (intro editorResolve_at) simp_all
  have pt: "playerResolve ms d t = (i, time (ms ! i), time (ms ! Suc i))" for d
    using playerResolve_at [OF assms(1) i assms(3), of d] tlt assms(2) by simp
  have pu: "playerResolve ms dur u = (i, time (ms ! i), time (ms ! Suc i))"
    using playerResolve_at [OF assms(1) i ui, of dur] assms(2,5) by simp
  have em: "editorProgressAt ms t \<le> editorProgressAt ms u"
    by (simp add: editorProgressAt_def et eu editorProgress_mono [OF assms(4)])
  have pm: "playerProgressAt ms dur t \<le> playerProgressAt ms dur u"
    by (simp add: playerProgressAt_def pt pu barProgress_mono [OF assms(4)])
  have hl: "beatMarkers s = ms \<and> 0 < bar (ms ! i) \<longrightarrow>
              lastSyncedBar (highlightCurrentBar t s) = bar (ms ! i)"
    using et by (auto intro: highlight_lastSyncedBar)
  have uc: "markers p = Some ms \<and> currentTime p + notationOffset = t \<longrightarrow>
              currentBar (updateCursor p) = bar (ms ! i)"
    using pt [of "duration p"] i by (auto intro: updateCursor_resolved(1))
  from last et hl em pt [of dur] uc pm show ?thesis by blast
qed

theorem resolve_between_markers_witness:
  "sorted (map time exampleMarkers) \<and> Suc 1 < length exampleMarkers \<and>
   time (exampleMarkers ! 1) \<le> 3 \<and> (3::real) \<le> 4 \<and> 4 < time (exampleMarkers ! Suc 1) \<and>
   editorResolve exampleMarkers 3 = (2, 2, Some (41 / 10)) \<and>
   editorProgressAt exampleMarkers 3 \<le> editorProgressAt exampleMarkers 4 \<and>
   lastSyncedBar (highlightCurrentBar 3
      ((loadedEditor 4 exampleTicks)\<lparr>beatMarkers := exampleMarkers\<rparr>)) = 2 \<and>
   playerResolve exampleMarkers 8 3 = (1, 2, 41 / 10) \<and>
   currentBar (updateCursor
      ((loadedPlayer exampleMarkers 8 exampleTicks)\<lparr>currentTime := 315 / 100\<rparr>)) = 2 \<and>
   playerProgressAt exampleMarkers 8 3 \<le> playerProgressAt exampleMarkers 8 4"
proof -
  have h: "sorted (map time exampleMarkers)" "Suc 1 < length exampleMarkers"
    "time (exampleMarkers ! 1) \<le> 3" "(3::real) \<le> 4" "4 < time (exampleMarkers ! Suc 1)"
    by (simp_all add: exampleMarkers_def)
  have v: "bar (exampleMarkers ! 1) = 2" "time (exampleMarkers ! 1) = 2"
    "timeOrNull exampleMarkers (Suc 1) = Some (41 / 10)"
    "time (exampleMarkers ! Suc 1) = 41 / 10"
    by (simp_all add: exampleMarkers_def timeOrNull_def)
  have s: "beatMarkers ((loadedEditor 4 exampleTicks)\<lparr>beatMarkers := exampleMarkers\<rparr>) =
             exampleMarkers"
    by simp
  have p: "markers ((loadedPlayer exampleMarkers 8 exampleTicks)\<lparr>currentTime := 315 / 100\<rparr>) =
             Some exampleMarkers"
    "currentTime ((loadedPlayer exampleMarkers 8 exampleTicks)\<lparr>currentTime := 315 / 100\<rparr>) +
       notationOffset = 3"
    by (simp_all add: loadedPlayer_def notationOffset_def)
  show ?thesis
    using h v s p
      resolve_between_markers [OF h, of "(loadedEditor 4 exampleTicks)\<lparr>beatMarkers := exampleMarkers\<rparr>" 8
        "(loadedPlayer exampleMarkers 8 exampleTicks)\<lparr>currentTime := 315 / 100\<rparr>"]
    by simp
qed

text \<open>
  Claim C2, in the player. \<^verbatim>\<open>updateCursor\<close> starts its scan from
  \<^verbatim>\<open>currentBarIndex = 0\<close>, so before the first marker it resolves to the first marker
  of the list: with one marker for bar 1 at 5 seconds and the playback time 3.15 (adjusted
  time 3), it emits bar 1 and writes the cursor.
\<close>

theorem player_before_first_marker_counterexample:
  "currentTime ((loadedPlayer [\<lparr>bar = 1, time = 5\<rparr>] 10 exampleTicks)\<lparr>currentTime := 315 / 100\<rparr>)
     + notationOffset < time \<lparr>bar = 1, time = 5\<rparr> \<and>
   currentBar ((loadedPlayer [\<lparr>bar = 1, time = 5\<rparr>] 10 exampleTicks)\<lparr>currentTime := 315 / 100\<rparr>) = 0 \<and>
   tickPosition ((loadedPlayer [\<lparr>bar = 1, time = 5\<rparr>] 10 exampleTicks)\<lparr>currentTime := 315 / 100\<rparr>) = 0 \<and>
   currentBar (updateCursor
     ((loadedPlayer [\<lparr>bar = 1, time = 5\<rparr>] 10 exampleTicks)\<lparr>currentTime := 315 / 100\<rparr>)) = 1 \<and>
   currentBarText (updateCursor
     ((loadedPlayer [\<lparr>bar = 1, time = 5\<rparr>] 10 exampleTicks)\<lparr>currentTime := 315 / 100\<rparr>)) = 1 \<and>
   tickPosition (updateCursor
     ((loadedPlayer [\<lparr>bar = 1, time = 5\<rparr>] 10 exampleTicks)\<lparr>currentTime := 315 / 100\<rparr>)) = 1152"
  by (simp add: updateCursor_def loadedPlayer_def playerResolve_def playerScan.simps
      notationOffset_def Let_def exampleTicks_def tickLookup_def interpolateTick_def
      barProgress_def)

text \<open>
  Claim C2, as amended. Let the offset-adjusted time be strictly less than the time of
  every marker. The editor then produces no symbolic position: the resolved bar is its
  sentinel 0 and \<^verbatim>\<open>highlightCurrentBar\<close> leaves the state as it is, so no bar is emitted
  and the cursor is not moved. The player produces none either when it has no markers;
  with a non-empty marker list it falls back to the first marker of the list and emits
  that marker's bar.
\<close>

theorem resolve_before_first_marker:
  "((\<forall>m \<in> set (beatMarkers s). t < time m) \<longrightarrow>
      editorResolve (beatMarkers s) t = (0, 0, None) \<and> highlightCurrentBar t s = s) \<and>
   (markers p = None \<or> markers p = Some [] \<longrightarrow> updateCursor p = p) \<and>
   (markers p = Some ms \<and> ms \<noteq> [] \<and>
    (\<forall>m \<in> set ms. currentTime p + notationOffset < time m) \<longrightarrow>
      playerResolve ms (duration p) (currentTime p + notationOffset) = (0, 0, duration p) \<and>
      currentBar (updateCursor p) = bar (ms ! 0))"
proof (intro conjI impI)
  assume b: "\<forall>m \<in> set (beatMarkers s). t < time m"
  then show e: "editorResolve (beatMarkers s) t = (0, 0, None)"
    by (rule editorResolve_before)
  then show "highlightCurrentBar t s = s" by (rule highlight_before)
next
  assume "markers p = None \<or> markers p = Some []"
  then show "updateCursor p = p" by (rule updateCursor_no_markers)
next
  assume a: "markers p = Some ms \<and> ms \<noteq> [] \<and>
    (\<forall>m \<in> set ms. currentTime p + notationOffset < time m)"
  then show r: "playerResolve ms (duration p) (currentTime p + notationOffset) =
                  (0, 0, duration p)"
    by (intro playerResolve_before) simp
  from a have "0 < length ms" by simp
  with a r show "currentBar (updateCursor p) = bar (ms ! 0)"
    by (intro updateCursor_resolved(1)) auto
qed

theorem resolve_before_first_marker_witness:
  "3 < time \<lparr>bar = 1, time = 5\<rparr> \<and>
   highlightCurrentBar 3 ((loadedEditor 4 exampleTicks)\<lparr>beatMarkers := [\<lparr>bar = 1, time = 5\<rparr>]\<rparr>) =
     (loadedEditor 4 exampleTicks)\<lparr>beatMarkers := [\<lparr>bar = 1, time = 5\<rparr>]\<rparr> \<and>
   updateCursor (loadedPlayer [] 10 exampleTicks) = loadedPlayer [] 10 exampleTicks \<and>
   currentBar (updateCursor
     ((loadedPlayer [\<lparr>bar = 1, time = 5\<rparr>] 10 exampleTicks)\<lparr>currentTime := 315 / 100\<rparr>)) = 1"
proof -
  let ?s = "(loadedEditor 4 exampleTicks)\<lparr>beatMarkers := [\<lparr>bar = 1, time = 5\<rparr>]\<rparr>"
  let ?p = "(loadedPlayer [\<lparr>bar = 1, time = 5\<rparr>] 10 exampleTicks)\<lparr>currentTime := 315 / 100\<rparr>"
  have e: "\<forall>m \<in> set (beatMarkers ?s). 3 < time m" by simp
  have n: "markers (loadedPlayer [] 10 exampleTicks) = None \<or>
           markers (loadedPlayer [] 10 exampleTicks) = Some []"
    by (simp add: loadedPlayer_def)
  have q: "markers ?p = Some [\<lparr>bar = 1, time = 5\<rparr>] \<and> [\<lparr>bar = 1, time = 5\<rparr>] \<noteq> [] \<and>
           (\<forall>m \<in> set [\<lparr>bar = 1, time = 5\<rparr>]. currentTime ?p + notationOffset < time m)"
    by (simp add: loadedPlayer_def notationOffset_def)
  from resolve_before_first_marker [of ?s 3 "loadedPlayer [] 10 exampleTicks" "[]"] e n
  have 1: "highlightCurrentBar 3 ?s = ?s"
    and 2: "updateCursor (loadedPlayer [] 10 exampleTicks) = loadedPlayer [] 10 exampleTicks"
    by blast+
  from resolve_before_first_marker [of ?s 3 ?p "[\<lparr>bar = 1, time = 5\<rparr>]"] q
  have 3: "currentBar (updateCursor ?p) = 1" by simp
  from 1 2 3 show ?thesis by simp
qed

text \<open>
  Claim C3, as stated. Three inputs at or beyond the last marker's time. (1) The editor has
  no end time for the last bar: its progress stays 0 and it puts the cursor at the start
  of bar 4, however late the time. (2) The player resolves the adjusted time: at the
  playback time 8, the audio's duration and the latest time the player holds, the progress
  is 37/40, not 1. (3) With markers out of order the player's scan stops at the first
  marker that is still ahead: it yields bar 1 although the last marker (bar 3, at 1
  second) has been passed.
\<close>

theorem last_bar_counterexample:
  "editorResolve exampleMarkers 100 = (4, 6, None) \<and>
   editorProgressAt exampleMarkers 100 = 0 \<and>
   ed_tickPosition (highlightCurrentBar 100
      ((loadedEditor 4 exampleTicks)\<lparr>beatMarkers := exampleMarkers\<rparr>)) = 11520 \<and>
   playerProgressAt exampleMarkers 8 (8 + notationOffset) = 37 / 40 \<and>
   tickPosition (updateCursor
      ((loadedPlayer exampleMarkers 8 exampleTicks)\<lparr>currentTime := 8\<rparr>)) = 15072 \<and>
   time (last unorderedMarkers) \<le> 3 \<and>
   playerResolve unorderedMarkers 10 3 = (0, 0, 10) \<and>
   currentBar (updateCursor
      ((loadedPlayer unorderedMarkers 10 exampleTicks)\<lparr>currentTime := 315 / 100\<rparr>)) = 1 \<and>
   bar (last unorderedMarkers) = 3"
  by (simp add: editorResolve_def editorProgressAt_def editorProgress_def editorScan.simps
      timeOrNull_def exampleMarkers_def unorderedMarkers_def highlightCurrentBar_def
      loadedEditor_def scrollToBar_def tickLookup_def exampleTicks_def interpolateTick_def
      playerResolve_def playerProgressAt_def barProgress_def playerScan.simps
      updateCursor_def loadedPlayer_def notationOffset_def Let_def)

text \<open>
  Claim C3, as amended. Let the marker times be non-decreasing and let the offset-adjusted
  time be at or beyond the last marker's time. Both resolvers yield the last marker's bar.
  The editor has no end time for the last bar and its progress there is 0: the only
  position it writes to the cursor there is the start of the bar, on entering the bar and
  whenever its jitter filter lets the write through; otherwise it leaves the cursor where
  it is. The player, at every playback time up to the audio's duration (the frame tick
  and \<^verbatim>\<open>seekTo\<close> cap the time there, lemma \<open>time_within_duration\<close>), takes the duration as
  the end time of the last bar and keeps interpolating: its progress is
  \<^verbatim>\<open>(t' - start) / (duration - start)\<close>, which grows with the playback time and stays
  below 1, the adjusted time staying 0.15 s short of the duration.
\<close>

theorem resolve_in_last_bar:
  assumes "sorted (map time ms)" and "ms \<noteq> []"
  shows
    "(beatMarkers s = ms \<and> time (last ms) \<le> t \<longrightarrow>
        editorResolve ms t = (bar (last ms), time (last ms), None) \<and>
        editorProgressAt ms t = 0 \<and>
        (0 < bar (last ms) \<longrightarrow> lastSyncedBar (highlightCurrentBar t s) = bar (last ms)) \<and>
        (tickLookup (ed_barTickMap s) (bar (last ms)) = None \<longrightarrow>
           ed_tickPosition (highlightCurrentBar t s) = ed_tickPosition s) \<and>
        (tickLookup (ed_barTickMap s) (bar (last ms)) = Some bt \<longrightarrow>
           (ed_tickPosition (highlightCurrentBar t s) = ed_tickPosition s \<or>
            ed_tickPosition (highlightCurrentBar t s) = startTick bt) \<and>
           (0 < bar (last ms) \<and> ed_alphaTab s \<and>
            (lastSyncedBar s \<noteq> bar (last ms) \<or> lastTick s = 0 \<or>
             100 < \<bar>startTick bt - lastTick s\<bar>) \<longrightarrow>
              ed_tickPosition (highlightCurrentBar t s) = startTick bt))) \<and>
     (markers p = Some ms \<and> currentTime p \<le> duration p \<and>
      time (last ms) \<le> currentTime p + notationOffset \<longrightarrow>
        playerResolve ms (duration p) (currentTime p + notationOffset) =
          (length ms - 1, time (last ms), duration p) \<and>
        currentBar (updateCursor p) = bar (last ms) \<and>
        time (last ms) < duration p \<and>
        playerProgressAt ms (duration p) (currentTime p + notationOffset) =
          (currentTime p + notationOffset - time (last ms)) / (duration p - time (last ms)) \<and>
        0 \<le> playerProgressAt ms (duration p) (currentTime p + notationOffset) \<and>
        playerProgressAt ms (duration p) (currentTime p + notationOffset) < 1 \<and>
        (tickLookup (barTickMap p) (bar (last ms)) = Some bt' \<longrightarrow>
           tickPosition (updateCursor p) =
             interpolateTick bt'
               (playerProgressAt ms (duration p) (currentTime p + notationOffset))) \<and>
        (currentTime p < u \<and> u \<le> duration p \<longrightarrow>
           playerProgressAt ms (duration p) (currentTime p + notationOffset) <
             playerProgressAt ms (duration p) (u + notationOffset)))"
proof (intro conjI impI)
  let ?k = "length ms - 1"
  have k: "?k < length ms" and sk: "\<not> Suc ?k < length ms" and l: "ms ! ?k = last ms"
    using assms(2) by (simp_all add: last_conv_nth)
  { assume a: "beatMarkers s = ms \<and> time (last ms) \<le> t"
    then have tk: "time (ms ! ?k) \<le> t" using l by simp
    have "editorResolve ms t = (bar (ms ! ?k), time (ms ! ?k), timeOrNull ms (Suc ?k))"
      using assms(1) k tk sk by (intro editorResolve_at) simp_all
    then show e: "editorResolve ms t = (bar (last ms), time (last ms), None)"
      using sk l by (simp add: timeOrNull_def)
    show "editorProgressAt ms t = 0"
      by (simp add: editorProgressAt_def e editorProgress_def)
    from e a have es: "editorResolve (beatMarkers s) t = (bar (last ms), time (last ms), None)"
      by simp
    { assume "0 < bar (last ms)"
      with es show "lastSyncedBar (highlightCurrentBar t s) = bar (last ms)"
        by (rule highlight_lastSyncedBar) }
    { assume "tickLookup (ed_barTickMap s) (bar (last ms)) = None"
      with es show "ed_tickPosition (highlightCurrentBar t s) = ed_tickPosition s"
        by (rule highlight_without_end(2)) }
    { assume tl: "tickLookup (ed_barTickMap s) (bar (last ms)) = Some bt"
      with es show "ed_tickPosition (highlightCurrentBar t s) = ed_tickPosition s \<or>
                    ed_tickPosition (highlightCurrentBar t s) = startTick bt"
        by (rule highlight_without_end(1))
      { assume w: "0 < bar (last ms) \<and> ed_alphaTab s \<and>
                   (lastSyncedBar s \<noteq> bar (last ms) \<or> lastTick s = 0 \<or>
                    100 < \<bar>startTick bt - lastTick s\<bar>)"
        from highlight_without_end(3) [OF es tl] w
        show "ed_tickPosition (highlightCurrentBar t s) = startTick bt" by blast } } }
  { assume a: "markers p = Some ms \<and> currentTime p \<le> duration p \<and>
               time (last ms) \<le> currentTime p + notationOffset"
    let ?t = "currentTime p + notationOffset"
    have lt: "?t < duration p" using a by (simp add: notationOffset_def)
    have ge: "time (last ms) \<le> ?t" using a by simp
    note lb = last_bar_progress [OF assms ge lt]
    show r: "playerResolve ms (duration p) ?t = (?k, time (last ms), duration p)"
      by (rule lb(1))
    from updateCursor_resolved(1) [of p ms ?k "time (last ms)" "duration p"] a r k l
    show "currentBar (updateCursor p) = bar (last ms)" by simp
    show "time (last ms) < duration p" using ge lt by simp
    show "playerProgressAt ms (duration p) ?t =
            (?t - time (last ms)) / (duration p - time (last ms))"
      by (rule lb(2))
    show "0 \<le> playerProgressAt ms (duration p) ?t" by (rule lb(3))
    show "playerProgressAt ms (duration p) ?t < 1" by (rule lb(4))
    { assume tl: "tickLookup (barTickMap p) (bar (last ms)) = Some bt'"
      from updateCursor_tick [of p ms ?k "time (last ms)" "duration p" bt'] a r k l tl
      show "tickPosition (updateCursor p) =
              interpolateTick bt' (playerProgressAt ms (duration p) ?t)" by simp }
    { assume b: "currentTime p < u \<and> u \<le> duration p"
      let ?u = "u + notationOffset"
      have ltu: "?u < duration p" using b by (simp add: notationOffset_def)
      have geu: "time (last ms) \<le> ?u" using ge b by simp
      have pos: "0 < duration p - time (last ms)" using ge lt by simp
      have "playerProgressAt ms (duration p) ?t =
              (?t - time (last ms)) / (duration p - time (last ms))"
        by (rule lb(2))
      also have "\<dots> < (?u - time (last ms)) / (duration p - time (last ms))"
        using b pos by (intro divide_strict_right_mono) simp_all
      also have "\<dots> = playerProgressAt ms (duration p) ?u"
        by (rule last_bar_progress(2) [OF assms geu ltu, symmetric])
      finally show "playerProgressAt ms (duration p) ?t < playerProgressAt ms (duration p) ?u" . } }
qed

theorem resolve_in_last_bar_witness:
  "sorted (map time exampleMarkers) \<and> exampleMarkers \<noteq> [] \<and>
   time (last exampleMarkers) \<le> 7 \<and>
   editorResolve exampleMarkers 7 = (4, 6, None) \<and>
   editorProgressAt exampleMarkers 7 = 0 \<and>
   lastSyncedBar (highlightCurrentBar 7
      ((loadedEditor 4 exampleTicks)\<lparr>beatMarkers := exampleMarkers\<rparr>)) = 4 \<and>
   ed_tickPosition (highlightCurrentBar 7
      ((loadedEditor 4 exampleTicks)\<lparr>beatMarkers := exampleMarkers\<rparr>)) = 11520 \<and>
   currentTime ((loadedPlayer exampleMarkers 8 exampleTicks)\<lparr>currentTime := 715 / 100\<rparr>) \<le>
     duration ((loadedPlayer exampleMarkers 8 exampleTicks)\<lparr>currentTime := 715 / 100\<rparr>) \<and>
   playerResolve exampleMarkers 8 7 = (3, 6, 8) \<and>
   currentBar (updateCursor
      ((loadedPlayer exampleMarkers 8 exampleTicks)\<lparr>currentTime := 715 / 100\<rparr>)) = 4 \<and>
   playerProgressAt exampleMarkers 8 7 = 1 / 2 \<and>
   tickPosition (updateCursor
      ((loadedPlayer exampleMarkers 8 exampleTicks)\<lparr>currentTime := 715 / 100\<rparr>)) = 13440 \<and>
   playerProgressAt exampleMarkers 8 7 < playerProgressAt exampleMarkers 8 (8 + notationOffset)"
proof -
  let ?s = "(loadedEditor 4 exampleTicks)\<lparr>beatMarkers := exampleMarkers\<rparr>"
  let ?p = "(loadedPlayer exampleMarkers 8 exampleTicks)\<lparr>currentTime := 715 / 100\<rparr>"
  let ?bt = "\<lparr>startTick = 11520, endTick = 15360\<rparr>"
  have h: "sorted (map time exampleMarkers)" "exampleMarkers \<noteq> []"
    by (simp_all add: exampleMarkers_def)
  have v: "bar (last exampleMarkers) = 4" "time (last exampleMarkers) = 6"
    "length exampleMarkers - 1 = 3"
    by (simp_all add: exampleMarkers_def)
  have e: "beatMarkers ?s = exampleMarkers" "time (last exampleMarkers) \<le> 7"
    "tickLookup (ed_barTickMap ?s) 4 = Some ?bt" "ed_alphaTab ?s" "lastSyncedBar ?s \<noteq> 4"
    by (simp_all add: loadedEditor_def exampleTicks_def tickLookup_def exampleMarkers_def)
  have q: "markers ?p = Some exampleMarkers" "currentTime ?p + notationOffset = 7"
    "currentTime ?p \<le> duration ?p" "duration ?p = 8" "currentTime ?p < 8"
    "tickLookup (barTickMap ?p) 4 = Some ?bt"
    by (simp_all add: loadedPlayer_def notationOffset_def exampleTicks_def tickLookup_def)
  have i: "interpolateTick ?bt (1 / 2) = 13440"
    by (simp add: interpolateTick_def)
  from resolve_in_last_bar [OF h, of ?s 7 ?bt ?p ?bt 8] v e q
  have 1: "editorResolve exampleMarkers 7 = (4, 6, None)"
    and 2: "editorProgressAt exampleMarkers 7 = 0"
    and 3: "lastSyncedBar (highlightCurrentBar 7 ?s) = 4"
    and 4: "ed_tickPosition (highlightCurrentBar 7 ?s) = 11520"
    and 5: "playerResolve exampleMarkers 8 7 = (3, 6, 8)"
    and 6: "currentBar (updateCursor ?p) = 4"
    and 7: "playerProgressAt exampleMarkers 8 7 = 1 / 2"
    and 8: "tickPosition (updateCursor ?p) = interpolateTick ?bt (playerProgressAt exampleMarkers 8 7)"
    and 9: "playerProgressAt exampleMarkers 8 7 < playerProgressAt exampleMarkers 8 (8 + notationOffset)"
    by simp_all
  have 10: "tickPosition (updateCursor ?p) = 13440"
    unfolding 8 7 by (rule i)
  from h e(2) q(3) 1 2 3 4 5 6 7 10 9 show ?thesis by blast
qed

text \<open>
  Claim C4. For every marker list, ordered or not, and every time, the within-bar progress
  that either resolver computes is a number between 0 and 1; the quotient is only formed
  under the guard that the bar's duration is positive, so no division by zero occurs. When
  the active bar has no end time (editor) or its duration
  \<^verbatim>\<open>barEndTime - barStartTime\<close> is zero or negative, the progress is 0. The cursor
  that \<^verbatim>\<open>updateCursor\<close> writes (and \<^verbatim>\<open>highlightCurrentBar\<close>, when it writes) is
  interpolated with this progress.
\<close>

theorem progress_in_unit_interval:
  "0 \<le> editorProgressAt ms t \<and> editorProgressAt ms t \<le> 1 \<and>
   0 \<le> playerProgressAt ms dur t \<and> playerProgressAt ms dur t \<le> 1 \<and>
   editorProgress t barStartTime None = 0 \<and>
   (barEndTime - barStartTime \<le> 0 \<longrightarrow>
      editorProgress t barStartTime (Some barEndTime) = 0 \<and>
      barProgress t barStartTime barEndTime = 0) \<and>
   (beatMarkers s = ms \<and> editorResolve ms t = (b, c, e) \<and> 0 < b \<and>
    tickLookup (ed_barTickMap s) b = Some bt \<and> lastTick s = 0 \<and> ed_alphaTab s \<longrightarrow>
      ed_tickPosition (highlightCurrentBar t s) = interpolateTick bt (editorProgressAt ms t)) \<and>
   (markers p = Some ms \<and> duration p = dur \<and> currentTime p + notationOffset = t \<and>
    playerResolve ms dur t = (i, c', e') \<and> i < length ms \<and>
    tickLookup (barTickMap p) (bar (ms ! i)) = Some bt' \<longrightarrow>
      tickPosition (updateCursor p) = interpolateTick bt' (playerProgressAt ms dur t))"
proof -
  obtain b1 c1 n1 where e: "editorResolve ms t = (b1, c1, n1)"
    by (cases "editorResolve ms t") auto
  obtain i2 c2 n2 where p: "playerResolve ms dur t = (i2, c2, n2)"
    by (cases "playerResolve ms dur t") auto
  have 1: "0 \<le> editorProgressAt ms t \<and> editorProgressAt ms t \<le> 1"
    using editorProgress_range [of t c1 n1] by (simp add: editorProgressAt_def e)
  have 2: "0 \<le> playerProgressAt ms dur t \<and> playerProgressAt ms dur t \<le> 1"
    using barProgress_range [of t c2 n2] by (simp add: playerProgressAt_def p)
  have 3: "editorProgress t barStartTime None = 0"
    by (simp add: editorProgress_def)
  have 4: "barEndTime - barStartTime \<le> 0 \<longrightarrow>
             editorProgress t barStartTime (Some barEndTime) = 0 \<and>
             barProgress t barStartTime barEndTime = 0"
    by (simp add: editorProgress_def barProgress_def)
  have 5: "beatMarkers s = ms \<and> editorResolve ms t = (b, c, e) \<and> 0 < b \<and>
           tickLookup (ed_barTickMap s) b = Some bt \<and> lastTick s = 0 \<and> ed_alphaTab s \<longrightarrow>
             ed_tickPosition (highlightCurrentBar t s) =
               interpolateTick bt (editorProgressAt ms t)"
    using highlight_tick [of s t b c e bt] by auto
  have 6: "markers p = Some ms \<and> duration p = dur \<and> currentTime p + notationOffset = t \<and>
           playerResolve ms dur t = (i, c', e') \<and> i < length ms \<and>
           tickLookup (barTickMap p) (bar (ms ! i)) = Some bt' \<longrightarrow>
             tickPosition (updateCursor p) = interpolateTick bt' (playerProgressAt ms dur t)"
    using updateCursor_tick [of p ms i c' e' bt'] by auto
  from 1 2 3 4 5 6 show ?thesis by blast
qed

theorem progress_in_unit_interval_witness:
  "0 \<le> editorProgressAt unorderedMarkers 5 \<and> editorProgressAt unorderedMarkers 5 \<le> 1 \<and>
   0 \<le> playerProgressAt unorderedMarkers 10 6 \<and> playerProgressAt unorderedMarkers 10 6 \<le> 1 \<and>
   (10::real) - 10 \<le> 0 \<and>
   editorProgress 10 10 (Some 10) = 0 \<and> barProgress 10 10 10 = 0 \<and>
   playerResolve exampleMarkers 8 3 = (1, 2, 41 / 10) \<and>
   tickPosition (updateCursor
      ((loadedPlayer exampleMarkers 8 exampleTicks)\<lparr>currentTime := 315 / 100\<rparr>)) =
     interpolateTick \<lparr>startTick = 3840, endTick = 7680\<rparr> (playerProgressAt exampleMarkers 8 3) \<and>
   editorResolve exampleMarkers 3 = (2, 2, Some (41 / 10)) \<and>
   ed_tickPosition (highlightCurrentBar 3
      ((loadedEditor 4 exampleTicks)\<lparr>beatMarkers := exampleMarkers\<rparr>)) =
     interpolateTick \<lparr>startTick = 3840, endTick = 7680\<rparr> (editorProgressAt exampleMarkers 3)"
proof -
  let ?s = "(loadedEditor 4 exampleTicks)\<lparr>beatMarkers := exampleMarkers\<rparr>"
  let ?p = "(loadedPlayer exampleMarkers 8 exampleTicks)\<lparr>currentTime := 315 / 100\<rparr>"
  let ?bt = "\<lparr>startTick = 3840, endTick = 7680\<rparr>"
  have e: "editorResolve exampleMarkers 3 = (2, 2, Some (41 / 10))"
    by (simp add: editorResolve_def exampleMarkers_def editorScan.simps timeOrNull_def)
  have r: "playerResolve exampleMarkers 8 3 = (1, 2, 41 / 10)"
    by (simp add: playerResolve_def exampleMarkers_def playerScan.simps)
  have hs: "beatMarkers ?s = exampleMarkers" "(0::int) < 2"
    "tickLookup (ed_barTickMap ?s) 2 = Some ?bt" "lastTick ?s = 0" "ed_alphaTab ?s"
    by (simp_all add: loadedEditor_def exampleTicks_def tickLookup_def)
  have hp: "markers ?p = Some exampleMarkers" "duration ?p = 8"
    "currentTime ?p + notationOffset = 3" "1 < length exampleMarkers"
    "tickLookup (barTickMap ?p) (bar (exampleMarkers ! 1)) = Some ?bt"
    by (simp_all add: loadedPlayer_def exampleTicks_def tickLookup_def notationOffset_def
        exampleMarkers_def)
  have d: "(10::real) - 10 \<le> 0" by simp
  from progress_in_unit_interval [of unorderedMarkers 5 10 10 10]
  have 1: "0 \<le> editorProgressAt unorderedMarkers 5 \<and> editorProgressAt unorderedMarkers 5 \<le> 1"
    by blast
  from progress_in_unit_interval [of unorderedMarkers 6 10]
  have 2: "0 \<le> playerProgressAt unorderedMarkers 10 6 \<and> playerProgressAt unorderedMarkers 10 6 \<le> 1"
    by blast
  from progress_in_unit_interval [of _ 10 _ 10 10] d
  have 3: "editorProgress 10 10 (Some 10) = 0 \<and> barProgress 10 10 10 = 0"
    by blast
  from progress_in_unit_interval [of exampleMarkers 3 8 _ _ ?s 2 2 "Some (41 / 10)" ?bt ?p 1 2 "41 / 10" ?bt]
    e r hs hp
  have 4: "ed_tickPosition (highlightCurrentBar 3 ?s) =
             interpolateTick ?bt (editorProgressAt exampleMarkers 3)"
    and 5: "tickPosition (updateCursor ?p) =
             interpolateTick ?bt (playerProgressAt exampleMarkers 8 3)"
    by blast+
  from 1 2 3 4 5 e r show ?thesis by simp
qed

section \<open>Transport\<close>




text \<open>
  Claim C6. When the source node ends while the player is playing: with looping enabled
  (and the audio buffer loaded, as it is whenever the player plays) the handler seeks to 0
  and plays again, so the player is playing from position 0; with looping disabled the
  player is stopped, the stored position and the current time are 0 and the bar
  indicator shows 1. For markers as the editor records them (the first marker is bar 1,
  at a time of at least 0) the current bar is 1 and the cursor stands at the start of
  bar 1.
\<close>

theorem ended_loops_or_stops:
  "isPlaying p \<Longrightarrow>
   (isLooping p \<and> audioBuffer p \<longrightarrow>
      isPlaying (onended p) \<and> animationFrame (onended p) \<and>
      pausedAt (onended p) = 0 \<and> currentTime (onended p) = 0 \<and>
      audioSource (onended p) = Some \<lparr>rate = playbackRate p, offset = 0\<rparr>) \<and>
   (\<not> isLooping p \<longrightarrow>
      \<not> isPlaying (onended p) \<and> \<not> animationFrame (onended p) \<and>
      audioSource (onended p) = None \<and>
      pausedAt (onended p) = 0 \<and> currentTime (onended p) = 0 \<and>
      currentBarText (onended p) = 1 \<and>
      (markers p = Some ms \<and> ms \<noteq> [] \<and> bar (ms ! 0) = 1 \<and> 0 \<le> time (ms ! 0) \<longrightarrow>
         currentBar (onended p) = 1 \<and>
         (tickLookup (barTickMap p) 1 = Some bt \<longrightarrow> tickPosition (onended p) = startTick bt)))"
proof (intro conjI impI)
  assume playing: "isPlaying p"
  { assume loop: "isLooping p \<and> audioBuffer p"
    have z: "max 0 (min 0 (duration p)) = (0::real)" by simp
    have s: "pausedAt (seekTo 0 p) = 0" "currentTime (seekTo 0 p) = 0"
      "isPlaying (seekTo 0 p)"
      using playing loop z
      by (simp_all add: seekTo_def Let_def play_def pause_def updateCursor_fields)
    have pr: "playbackRate (seekTo 0 p) = playbackRate p" "audioBuffer (seekTo 0 p)"
      using playing loop
      by (simp_all add: seekTo_def Let_def play_def pause_def updateCursor_fields)
    have o: "onended p = play (seekTo 0 p)"
      using playing loop by (simp add: onended_def)
    show "isPlaying (onended p)" "animationFrame (onended p)"
      "pausedAt (onended p) = 0" "currentTime (onended p) = 0"
      "audioSource (onended p) = Some \<lparr>rate = playbackRate p, offset = 0\<rparr>"
      by (simp_all add: o play_def s pr) }
  { assume noloop: "\<not> isLooping p"
    define p2 where "p2 = (pause p)\<lparr>pausedAt := 0, currentTime := 0, currentBar := 0\<rparr>"
    have o: "onended p = (updateCursor p2)\<lparr>currentBarText := 1\<rparr>"
      using playing noloop by (simp add: onended_def stop_def Let_def p2_def)
    have p2f: "\<not> isPlaying p2" "\<not> animationFrame p2" "audioSource p2 = None"
      "pausedAt p2 = 0" "currentTime p2 = 0" "markers p2 = markers p"
      "duration p2 = duration p" "barTickMap p2 = barTickMap p"
      using playing by (simp_all add: p2_def pause_def)
    show "\<not> isPlaying (onended p)" "\<not> animationFrame (onended p)"
      "audioSource (onended p) = None" "pausedAt (onended p) = 0"
      "currentTime (onended p) = 0" "currentBarText (onended p) = 1"
      by (simp_all add: o updateCursor_fields p2f)
    { assume m: "markers p = Some ms \<and> ms \<noteq> [] \<and> bar (ms ! 0) = 1 \<and> 0 \<le> time (ms ! 0)"
      then have before: "notationOffset < time (ms ! 0)"
        by (simp add: notationOffset_def)
      have r: "playerResolve ms (duration p2) (currentTime p2 + notationOffset) =
                 (0, 0, duration p2)"
        unfolding playerResolve_def using before
        by (intro playerScan_stop) (simp add: p2f)
      have l: "0 < length ms" using m by simp
      have m2: "markers p2 = Some ms" using m by (simp add: p2f)
      from updateCursor_resolved(1) [OF m2 r l] m
      show "currentBar (onended p) = 1" by (simp add: o)
      { assume t: "tickLookup (barTickMap p) 1 = Some bt"
        then have "tickLookup (barTickMap p2) (bar (ms ! 0)) = Some bt"
          using m by (simp add: p2f)
        from updateCursor_resolved(2) [OF m2 r l this]
        have "tickPosition (updateCursor p2) =
                interpolateTick bt (barProgress notationOffset 0 (duration p2))"
          by (simp add: p2f)
        also have "barProgress notationOffset 0 (duration p2) = 0"
          by (rule barProgress_nonpos) (simp add: notationOffset_def)
        finally show "tickPosition (onended p) = startTick bt"
          by (simp add: o interpolateTick_0) } } }
qed

theorem ended_loops_or_stops_witness:
  "isPlaying (toggleLoop (play (loadedPlayer exampleMarkers 8 exampleTicks))) \<and>
   isPlaying (onended (toggleLoop (play (loadedPlayer exampleMarkers 8 exampleTicks)))) \<and>
   pausedAt (onended (toggleLoop (play (loadedPlayer exampleMarkers 8 exampleTicks)))) = 0 \<and>
   audioSource (onended (toggleLoop (play (loadedPlayer exampleMarkers 8 exampleTicks)))) =
     Some \<lparr>rate = 1, offset = 0\<rparr> \<and>
   isPlaying (play (loadedPlayer exampleMarkers 8 exampleTicks)) \<and>
   \<not> isPlaying (onended (play (loadedPlayer exampleMarkers 8 exampleTicks))) \<and>
   pausedAt (onended (play (loadedPlayer exampleMarkers 8 exampleTicks))) = 0 \<and>
   currentBarText (onended (play (loadedPlayer exampleMarkers 8 exampleTicks))) = 1 \<and>
   currentBar (onended (play (loadedPlayer exampleMarkers 8 exampleTicks))) = 1 \<and>
   tickPosition (onended (play (loadedPlayer exampleMarkers 8 exampleTicks))) = 0"
proof -
  let ?p = "play (loadedPlayer exampleMarkers 8 exampleTicks)"
  let ?l = "toggleLoop ?p"
  have hl: "isPlaying ?l" "isLooping ?l \<and> audioBuffer ?l" "playbackRate ?l = 1"
    by (simp_all add: toggleLoop_def play_def loadedPlayer_def)
  have hp: "isPlaying ?p" "\<not> isLooping ?p"
    "markers ?p = Some exampleMarkers \<and> exampleMarkers \<noteq> [] \<and>
     bar (exampleMarkers ! 0) = 1 \<and> 0 \<le> time (exampleMarkers ! 0)"
    "tickLookup (barTickMap ?p) 1 = Some \<lparr>startTick = 0, endTick = 3840\<rparr>"
    by (simp_all add: play_def loadedPlayer_def exampleMarkers_def exampleTicks_def
        tickLookup_def)
  from ended_loops_or_stops [OF hl(1)] hl
  have 1: "isPlaying (onended ?l)" "pausedAt (onended ?l) = 0"
    "audioSource (onended ?l) = Some \<lparr>rate = 1, offset = 0\<rparr>"
    by simp_all
  from ended_loops_or_stops [OF hp(1), of exampleMarkers "\<lparr>startTick = 0, endTick = 3840\<rparr>"] hp
  have 2: "\<not> isPlaying (onended ?p)" "pausedAt (onended ?p) = 0"
    "currentBarText (onended ?p) = 1" "currentBar (onended ?p) = 1"
    "tickPosition (onended ?p) = 0"
    by simp_all
  from hl(1) hp(1) 1 2 show ?thesis by simp
qed

text \<open>
  Claim C9, as stated. Neither slider handler tests its value: the rate -0.5 is stored and
  handed to the playing source node, and the rate 0 is handed to wavesurfer.
\<close>

theorem nonpositive_rate_counterexample:
  "real_of_int (- 50) / 100 \<le> 0 \<and>
   playbackRate (tempoInput (- 50) (play (loadedPlayer exampleMarkers 8 exampleTicks))) = - (1 / 2) \<and>
   audioSource (tempoInput (- 50) (play (loadedPlayer exampleMarkers 8 exampleTicks))) =
     Some \<lparr>rate = - (1 / 2), offset = 0\<rparr> \<and>
   wavesurferRate (speedInput 0 (loadedEditor 4 exampleTicks)) = 0"
  by (simp add: tempoInput_def speedInput_def play_def loadedPlayer_def loadedEditor_def Let_def)

text \<open>
  Claim C9, as amended. For every slider value \<^verbatim>\<open>v\<close>, positive or not, the handler
  stores the rate \<^verbatim>\<open>v / 100\<close> and, when there is an audio engine to apply it to (a source
  node in the player, wavesurfer in the editor), changes that engine's rate to it at
  once; no value is rejected.
\<close>

theorem rate_applied_unchecked:
  "playbackRate (tempoInput v p) = real_of_int v / 100 \<and>
   (audioSource p = Some src \<longrightarrow>
      audioSource (tempoInput v p) = Some (src\<lparr>rate := real_of_int v / 100\<rparr>)) \<and>
   (audioSource p = None \<longrightarrow> audioSource (tempoInput v p) = None) \<and>
   playbackSpeed (speedInput v s) = real_of_int v / 100 \<and>
   (wavesurfer s \<longrightarrow> wavesurferRate (speedInput v s) = real_of_int v / 100) \<and>
   (\<not> wavesurfer s \<longrightarrow> wavesurferRate (speedInput v s) = wavesurferRate s)"
  by (simp add: tempoInput_def speedInput_def Let_def split: option.split)

theorem rate_applied_unchecked_witness:
  "audioSource (play (loadedPlayer exampleMarkers 8 exampleTicks)) =
     Some \<lparr>rate = 1, offset = 0\<rparr> \<and>
   playbackRate (tempoInput 75 (play (loadedPlayer exampleMarkers 8 exampleTicks))) = 3 / 4 \<and>
   audioSource (tempoInput 75 (play (loadedPlayer exampleMarkers 8 exampleTicks))) =
     Some \<lparr>rate = 3 / 4, offset = 0\<rparr> \<and>
   playbackRate (tempoInput 75 (loadedPlayer exampleMarkers 8 exampleTicks)) = 3 / 4 \<and>
   audioSource (tempoInput 75 (loadedPlayer exampleMarkers 8 exampleTicks)) = None \<and>
   wavesurfer (loadedEditor 4 exampleTicks) \<and>
   wavesurferRate (speedInput 150 (loadedEditor 4 exampleTicks)) = 3 / 2"
proof -
  let ?q = "loadedPlayer exampleMarkers 8 exampleTicks"
  have a: "audioSource (play ?q) = Some \<lparr>rate = 1, offset = 0\<rparr>" "audioSource ?q = None"
    by (simp_all add: play_def loadedPlayer_def)
  have w: "wavesurfer (loadedEditor 4 exampleTicks)"
    by (simp add: loadedEditor_def)
  from rate_applied_unchecked [of 75 "play ?q" "\<lparr>rate = 1, offset = 0\<rparr>"] a
  have 1: "playbackRate (tempoInput 75 (play ?q)) = 3 / 4"
    "audioSource (tempoInput 75 (play ?q)) = Some \<lparr>rate = 3 / 4, offset = 0\<rparr>"
    by simp_all
  from rate_applied_unchecked [of 75 ?q] a
  have 2: "playbackRate (tempoInput 75 ?q) = 3 / 4" "audioSource (tempoInput 75 ?q) = None"
    by simp_all
  from rate_applied_unchecked [of 150 _ _ "loadedEditor 4 exampleTicks"] w
  have 3: "wavesurferRate (speedInput 150 (loadedEditor 4 exampleTicks)) = 3 / 2"
    by simp
  from a w 1 2 3 show ?thesis by simp
qed

end
